theory Spec2Isabelle
  imports Main "HOL-Library.Char_ord" "HOL-Library.List_Lexorder"
begin

section \<open>Flag registration and environment-variable resolution (pkg/cli/flag.go)\<close>

text \<open>
  A shallow embedding of \<^verbatim>\<open>vendor/github.com/werf/common-go/pkg/cli/flag.go\<close>:
  \<^verbatim>\<open>AddFlag\<close>, \<^verbatim>\<open>applyAddOptionsDefaults\<close>, \<^verbatim>\<open>buildHelp\<close>, \<^verbatim>\<open>addFlags\<close>,
  \<^verbatim>\<open>processEnvVars\<close> and \<^verbatim>\<open>saveFlagGroupMetadata\<close>.

  Go strings are byte strings (\<open>string\<close>, compared bytewise as \<^verbatim>\<open>sort.Strings\<close> does).
  A Go map is a partial function; the order in which a \<^verbatim>\<open>range\<close> statement visits the
  keys of a map is not fixed by the language, so every \<^verbatim>\<open>range\<close> over a map takes the
  visiting order as an argument. A function that returns \<^verbatim>\<open>error\<close> after mutating the
  command returns the new state together with what the call ended with.
\<close>

subsection \<open>Errors and outcomes\<close>

datatype error =
    Errorf string error
    \<comment> \<open>\<^verbatim>\<open>fmt.Errorf("<text>: %w", err)\<close>\<close>
  | CompileRegex string error
    \<comment> \<open>\<^verbatim>\<open>fmt.Errorf("compile regex %q: %w", regExpr.Expr, err)\<close>\<close>
  | EnvVarNotValid string string error
    \<comment> \<open>\<^verbatim>\<open>fmt.Errorf("environment variable %q value %q is not valid: %w", key, val, err)\<close>\<close>
  | UnsupportedType
    \<comment> \<open>\<^verbatim>\<open>fmt.Errorf("unsupported type %T", dst)\<close>\<close>
  | External string
    \<comment> \<open>an error value produced outside this file (regexp, pflag, cobra)\<close>

datatype ret = ReturnsNil | ReturnsErr error | Panics

subsection \<open>Data\<close>

text \<open>The destination types the type switches distinguish; \<open>KOther\<close> is any other type.\<close>

datatype kind = KBool | KInt | KString | KDuration | KStringArray | KStringToString | KOther

datatype fvalue =
    BoolValue bool
  | IntValue int
  | StringValue string
  | DurationValue int
  | StringArrayValue "string list"
  | StringToStringValue "(string \<times> string) list" bool
  | OtherValue

fun kindOf :: "fvalue \<Rightarrow> kind" where
  "kindOf (BoolValue _) = KBool"
| "kindOf (IntValue _) = KInt"
| "kindOf (StringValue _) = KString"
| "kindOf (DurationValue _) = KDuration"
| "kindOf (StringArrayValue _) = KStringArray"
| "kindOf (StringToStringValue _ _) = KStringToString"
| "kindOf OtherValue = KOther"

text \<open>\<^verbatim>\<open>FlagRegexExpr\<close>: the fields this file reads.\<close>

datatype FlagRegexExpr = FlagRegexExpr (Expr: string) (Human: string)

record FlagGroup =
  ID :: string
  Title :: string
  Priority :: int

text \<open>
  Modelled from the spec: the flag of the command framework (pflag.Flag), which is not
  among the sources. The spec's data model gives it a short name, a help text, a current
  value (the declared default until something sets it), a changed marker, the visibility
  toggles, a path-kind hint and annotations.
\<close>

record Flag =
  Shorthand :: string
  Usage :: string
  Value :: fvalue
  Changed :: bool
  hidden :: bool
  deprecated :: bool
  required :: bool
  pathKind :: string
  Annotations :: "string \<rightharpoonup> string list"

text \<open>
  The state the functions of this file mutate: the flags of the command
  (\<^verbatim>\<open>cmd.Flags()\<close>), the package-level map \<^verbatim>\<open>definedFlagEnvVarRegexes\<close>, and the
  pattern texts handed to \<^verbatim>\<open>regexp.Compile\<close> so far, in call order.
\<close>

record state =
  flags :: "string \<rightharpoonup> Flag"
  definedFlagEnvVarRegexes :: "FlagRegexExpr \<rightharpoonup> (string \<Rightarrow> bool)"
  compileCalls :: "string list"

record AddFlagOptions =
  GetEnvVarRegexesFunc :: "(state \<Rightarrow> string \<Rightarrow> error + FlagRegexExpr list) option"
  Group :: "FlagGroup option"
  Type :: string
  ShortName :: string
  Deprecated :: bool
  Hidden :: bool
  Required :: bool

text \<open>
  What this file uses and does not define: \<^verbatim>\<open>regexp.Compile\<close> (a compiled expression is
  its \<^verbatim>\<open>MatchString\<close>), the \<^verbatim>\<open>Set\<close> of a flag's value and the \<^verbatim>\<open>Append\<close> of a slice
  value (each returns the value it leaves behind and its error), the two default
  resolvers and the three annotation names of the package.
\<close>

record deps =
  regexp_Compile :: "string \<Rightarrow> error + (string \<Rightarrow> bool)"
  Value_Set :: "fvalue \<Rightarrow> string \<Rightarrow> fvalue \<times> error option"
  SliceValue_Append :: "string list \<Rightarrow> string \<Rightarrow> string list \<times> error option"
  GetFlagLocalEnvVarRegexes :: "state \<Rightarrow> string \<Rightarrow> error + FlagRegexExpr list"
  GetFlagLocalMultiEnvVarRegexes :: "state \<Rightarrow> string \<Rightarrow> error + FlagRegexExpr list"
  FlagGroupIDAnnotationName :: string
  FlagGroupTitleAnnotationName :: string
  FlagGroupPriorityAnnotationName :: string

subsection \<open>The command framework\<close>

text \<open>
  Modelled from the spec: register-flag of the command framework (\<^verbatim>\<open>BoolVarP\<close>,
  \<^verbatim>\<open>IntVarP\<close>, \<^verbatim>\<open>StringVarP\<close>, \<^verbatim>\<open>StringArrayVarP\<close>, \<^verbatim>\<open>StringToStringVarP\<close>,
  \<^verbatim>\<open>DurationVarP\<close>), not among the sources: it creates the flag under its name with the
  declared default as its value and nothing else set.
\<close>

definition VarP :: "string \<Rightarrow> string \<Rightarrow> fvalue \<Rightarrow> string \<Rightarrow> state \<Rightarrow> state" where
  "VarP name shortName defaultValue help s =
     s\<lparr>flags := (flags s)(name \<mapsto>
        \<lparr>Shorthand = shortName, Usage = help, Value = defaultValue, Changed = False,
         hidden = False, deprecated = False, required = False, pathKind = [],
         Annotations = Map.empty\<rparr>)\<rparr>"

text \<open>
  Modelled from the spec: mark-hidden, mark-deprecated, mark-required, mark-path-kind and
  set-annotation of the command framework, not among the sources: each changes the named
  flag and fails with the framework's own error when the command has no such flag.
\<close>

definition changeFlag :: "string \<Rightarrow> (Flag \<Rightarrow> Flag) \<Rightarrow> state \<Rightarrow> state \<times> error option" where
  "changeFlag name g s =
     (case flags s name of
        None \<Rightarrow> (s, Some (External ''no such flag''))
      | Some f \<Rightarrow> (s\<lparr>flags := (flags s)(name \<mapsto> g f)\<rparr>, None))"

definition MarkHidden :: "string \<Rightarrow> state \<Rightarrow> state \<times> error option" where
  "MarkHidden name = changeFlag name (\<lambda>f. f\<lparr>hidden := True\<rparr>)"

definition MarkDeprecated :: "string \<Rightarrow> state \<Rightarrow> state \<times> error option" where
  "MarkDeprecated name = changeFlag name (\<lambda>f. f\<lparr>deprecated := True\<rparr>)"

definition MarkFlagRequired :: "string \<Rightarrow> state \<Rightarrow> state \<times> error option" where
  "MarkFlagRequired name = changeFlag name (\<lambda>f. f\<lparr>required := True\<rparr>)"

definition MarkFlagDirname :: "string \<Rightarrow> state \<Rightarrow> state \<times> error option" where
  "MarkFlagDirname name = changeFlag name (\<lambda>f. f\<lparr>pathKind := ''dir''\<rparr>)"

definition MarkFlagFilename :: "string \<Rightarrow> state \<Rightarrow> state \<times> error option" where
  "MarkFlagFilename name = changeFlag name (\<lambda>f. f\<lparr>pathKind := ''file''\<rparr>)"

definition SetAnnotation :: "string \<Rightarrow> string \<Rightarrow> string list \<Rightarrow> state \<Rightarrow> state \<times> error option" where
  "SetAnnotation name key values =
     changeFlag name (\<lambda>f. f\<lparr>Annotations := (Annotations f)(key \<mapsto> values)\<rparr>)"

subsection \<open>Strings\<close>

text \<open>\<^verbatim>\<open>strings.HasSuffix(help, ".")\<close>\<close>

definition HasSuffix_dot :: "string \<Rightarrow> bool" where
  "HasSuffix_dot help = (help \<noteq> [] \<and> last help = CHR ''.'')"

text \<open>\<^verbatim>\<open>strings.Join(elems, sep)\<close>\<close>

fun Join :: "string list \<Rightarrow> string \<Rightarrow> string" where
  "Join [] sep = []"
| "Join [x] sep = x"
| "Join (x # y # ys) sep = x @ sep @ Join (y # ys) sep"

text \<open>\<^verbatim>\<open>strings.SplitN(keyValue, "=", 2)\<close>: cut at the first \<^verbatim>\<open>=\<close>, one part when there is none.\<close>

definition SplitN_eq_2 :: "string \<Rightarrow> string list" where
  "SplitN_eq_2 keyValue =
     (if CHR ''='' \<in> set keyValue
      then [takeWhile (\<lambda>c. c \<noteq> CHR ''='') keyValue,
            tl (dropWhile (\<lambda>c. c \<noteq> CHR ''='') keyValue)]
      else [keyValue])"

text \<open>\<^verbatim>\<open>fmt.Sprintf("%d", n)\<close>\<close>

fun decimal :: "nat \<Rightarrow> string" where
  "decimal n =
     (if n < 10 then [''0123456789'' ! n]
      else decimal (n div 10) @ [''0123456789'' ! (n mod 10)])"

definition Sprintf_d :: "int \<Rightarrow> string" where
  "Sprintf_d n = (if n < 0 then CHR ''-'' # decimal (nat (- n)) else decimal (nat n))"

subsection \<open>applyAddOptionsDefaults, buildHelp, addFlags\<close>

definition applyAddOptionsDefaults :: "deps \<Rightarrow> AddFlagOptions \<Rightarrow> kind \<Rightarrow> error + AddFlagOptions" where
  "applyAddOptionsDefaults d opts dest =
     (if GetEnvVarRegexesFunc opts = None then
        (case dest of
           KBool \<Rightarrow> Inr (opts\<lparr>GetEnvVarRegexesFunc := Some (GetFlagLocalEnvVarRegexes d)\<rparr>)
         | KInt \<Rightarrow> Inr (opts\<lparr>GetEnvVarRegexesFunc := Some (GetFlagLocalEnvVarRegexes d)\<rparr>)
         | KString \<Rightarrow> Inr (opts\<lparr>GetEnvVarRegexesFunc := Some (GetFlagLocalEnvVarRegexes d)\<rparr>)
         | KDuration \<Rightarrow> Inr (opts\<lparr>GetEnvVarRegexesFunc := Some (GetFlagLocalEnvVarRegexes d)\<rparr>)
         | KStringArray \<Rightarrow>
             Inr (opts\<lparr>GetEnvVarRegexesFunc := Some (GetFlagLocalMultiEnvVarRegexes d)\<rparr>)
         | KStringToString \<Rightarrow>
             Inr (opts\<lparr>GetEnvVarRegexesFunc := Some (GetFlagLocalMultiEnvVarRegexes d)\<rparr>)
         | KOther \<Rightarrow> Inl UnsupportedType)
      else Inr opts)"

definition buildHelp :: "string \<Rightarrow> FlagRegexExpr list \<Rightarrow> error + string" where
  "buildHelp help0 envVarRegexes =
     (let help = (if \<not> HasSuffix_dot help0 then help0 @ ''.'' else help0) in
      if length envVarRegexes = 0 then Inr help
      else if length envVarRegexes = 1
        then Inr (help @ '' Var: '' @ Human (envVarRegexes ! 0))
      else Inr (help @ '' Vars: '' @ Join (map Human envVarRegexes) '', ''))"

definition addFlags :: "string \<Rightarrow> string \<Rightarrow> fvalue \<Rightarrow> string \<Rightarrow> state \<Rightarrow> state \<times> error option" where
  "addFlags name shortName defaultValue help s =
     (case kindOf defaultValue of
        KBool \<Rightarrow> (VarP name shortName defaultValue help s, None)
      | KInt \<Rightarrow> (VarP name shortName defaultValue help s, None)
      | KString \<Rightarrow> (VarP name shortName defaultValue help s, None)
      | KStringArray \<Rightarrow> (VarP name shortName defaultValue help s, None)
      | KStringToString \<Rightarrow> (VarP name shortName defaultValue help s, None)
      | KDuration \<Rightarrow> (VarP name shortName defaultValue help s, None)
      | KOther \<Rightarrow> (s, Some UnsupportedType))"

subsection \<open>processEnvVars\<close>

text \<open>
  The first loop: every pattern is compiled, on every call, and the result is stored in
  \<^verbatim>\<open>definedFlagEnvVarRegexes\<close> under the pattern (the struct, not its text); the first
  pattern that does not compile ends the call. \<^verbatim>\<open>fmt.Sprintf("%s", regExpr.Expr)\<close> is the
  text of the pattern.
\<close>

fun compileLoop :: "deps \<Rightarrow> FlagRegexExpr list \<Rightarrow> state \<Rightarrow> state \<times> error option" where
  "compileLoop d [] s = (s, None)"
| "compileLoop d (regExpr # rest) s =
     (case regexp_Compile d (Expr regExpr) of
        Inl err \<Rightarrow>
          (s\<lparr>compileCalls := compileCalls s @ [Expr regExpr]\<rparr>,
           Some (CompileRegex (Expr regExpr) err))
      | Inr regex \<Rightarrow>
          compileLoop d rest
            (s\<lparr>definedFlagEnvVarRegexes := (definedFlagEnvVarRegexes s)(regExpr \<mapsto> regex),
               compileCalls := compileCalls s @ [Expr regExpr]\<rparr>))"

text \<open>
  \<^verbatim>\<open>envir[parts[0]] = parts[1]\<close> over the sorted environment; \<open>None\<close> is the index
  panic on an entry without \<^verbatim>\<open>=\<close>.
\<close>

fun envirLoop :: "string list \<Rightarrow> (string \<rightharpoonup> string) \<Rightarrow> (string \<rightharpoonup> string) option" where
  "envirLoop [] envir = Some envir"
| "envirLoop (keyValue # rest) envir =
     (let parts = SplitN_eq_2 keyValue in
      if length parts < 2 then None
      else envirLoop rest (envir(parts ! 0 \<mapsto> parts ! 1)))"

text \<open>
  An order in which \<^verbatim>\<open>range\<close> may visit the keys of a map: each key once. The loops
  below take such an order and read the value of each key from the map.
\<close>

definition ranges :: "('k \<rightharpoonup> 'v) \<Rightarrow> 'k list \<Rightarrow> bool" where
  "ranges m keys = (distinct keys \<and> set keys = dom m)"

text \<open>
  \<^verbatim>\<open>definedFlagEnvVarRegexes[*regexExpr].MatchString(key)\<close>; \<open>None\<close> is the nil
  dereference when the map has no entry.
\<close>

definition MatchString :: "state \<Rightarrow> FlagRegexExpr \<Rightarrow> string \<Rightarrow> bool option" where
  "MatchString s regexExpr key =
     (case definedFlagEnvVarRegexes s regexExpr of
        None \<Rightarrow> None
      | Some regex \<Rightarrow> Some (regex key))"

text \<open>The loops that fill \<^verbatim>\<open>envs\<close> (lines 192 to 201).\<close>

fun envsInner ::
  "state \<Rightarrow> FlagRegexExpr list \<Rightarrow> string \<Rightarrow> string \<Rightarrow> (string \<rightharpoonup> string) \<Rightarrow>
   (string \<rightharpoonup> string) option" where
  "envsInner s [] key val envs = Some envs"
| "envsInner s (regexExpr # rest) key val envs =
     (case MatchString s regexExpr key of
        None \<Rightarrow> None
      | Some m \<Rightarrow>
          if \<not> m \<or> val = [] then envsInner s rest key val envs
          else envsInner s rest key val (envs(key \<mapsto> val)))"

fun envsLoop ::
  "state \<Rightarrow> FlagRegexExpr list \<Rightarrow> (string \<rightharpoonup> string) \<Rightarrow> string list \<Rightarrow>
   (string \<rightharpoonup> string) \<Rightarrow> (string \<rightharpoonup> string) option" where
  "envsLoop s exprs envir [] envs = Some envs"
| "envsLoop s exprs envir (key # keys) envs =
     (case envir key of
        None \<Rightarrow> envsLoop s exprs envir keys envs
      | Some val \<Rightarrow>
          (case envsInner s exprs key val envs of
             None \<Rightarrow> None
           | Some envs' \<Rightarrow> envsLoop s exprs envir keys envs'))"

text \<open>
  The body shared by the scalar and the map branch: \<^verbatim>\<open>flag := cmd.Flag(flagName)\<close>,
  \<^verbatim>\<open>flag.Changed = true\<close>, \<^verbatim>\<open>flag.Value.Set(val)\<close>. A command without the flag gives
  a nil flag, and the assignment panics.
\<close>

definition setFromEnv :: "deps \<Rightarrow> string \<Rightarrow> string \<Rightarrow> string \<Rightarrow> state \<Rightarrow> state \<times> ret" where
  "setFromEnv d flagName key val s =
     (case flags s flagName of
        None \<Rightarrow> (s, Panics)
      | Some flag \<Rightarrow>
          (case Value_Set d (Value flag) val of
             (v, Some err) \<Rightarrow>
               (s\<lparr>flags := (flags s)(flagName \<mapsto> flag\<lparr>Changed := True, Value := v\<rparr>)\<rparr>,
                ReturnsErr (EnvVarNotValid key val err))
           | (v, None) \<Rightarrow>
               (s\<lparr>flags := (flags s)(flagName \<mapsto> flag\<lparr>Changed := True, Value := v\<rparr>)\<rparr>,
                ReturnsNil)))"

text \<open>
  The body of the string-array branch; the type assertion
  \<^verbatim>\<open>flag.Value.(pflag.SliceValue)\<close> panics on a value that is no slice.
\<close>

definition appendFromEnv :: "deps \<Rightarrow> string \<Rightarrow> string \<Rightarrow> string \<Rightarrow> state \<Rightarrow> state \<times> ret" where
  "appendFromEnv d flagName key val s =
     (case flags s flagName of
        None \<Rightarrow> (s, Panics)
      | Some flag \<Rightarrow>
          (case Value flag of
             StringArrayValue xs \<Rightarrow>
               (case SliceValue_Append d xs val of
                  (ys, Some err) \<Rightarrow>
                    (s\<lparr>flags := (flags s)(flagName \<mapsto>
                          flag\<lparr>Changed := True, Value := StringArrayValue ys\<rparr>)\<rparr>,
                     ReturnsErr (EnvVarNotValid key val err))
                | (ys, None) \<Rightarrow>
                    (s\<lparr>flags := (flags s)(flagName \<mapsto>
                          flag\<lparr>Changed := True, Value := StringArrayValue ys\<rparr>)\<rparr>,
                     ReturnsNil))
           | _ \<Rightarrow> (s\<lparr>flags := (flags s)(flagName \<mapsto> flag\<lparr>Changed := True\<rparr>)\<rparr>, Panics)))"

text \<open>
  The inner loop of the scalar branch up to its first pattern that matches a key with a
  non-empty value: \<open>Some True\<close> when there is one.
\<close>

fun scalarInner :: "state \<Rightarrow> FlagRegexExpr list \<Rightarrow> string \<Rightarrow> string \<Rightarrow> bool option" where
  "scalarInner s [] key val = Some False"
| "scalarInner s (regexExpr # rest) key val =
     (case MatchString s regexExpr key of
        None \<Rightarrow> None
      | Some m \<Rightarrow> if \<not> m \<or> val = [] then scalarInner s rest key val else Some True)"

text \<open>
  The loop labelled \<^verbatim>\<open>envirLoop\<close> of the scalar branch: the first key visited that
  matches is set, then \<^verbatim>\<open>break envirLoop\<close>.
\<close>

fun scalarLoop ::
  "deps \<Rightarrow> FlagRegexExpr list \<Rightarrow> string \<Rightarrow> (string \<rightharpoonup> string) \<Rightarrow> string list \<Rightarrow> state \<Rightarrow>
   state \<times> ret" where
  "scalarLoop d exprs flagName envir [] s = (s, ReturnsNil)"
| "scalarLoop d exprs flagName envir (key # keys) s =
     (case envir key of
        None \<Rightarrow> scalarLoop d exprs flagName envir keys s
      | Some val \<Rightarrow>
          (case scalarInner s exprs key val of
             None \<Rightarrow> (s, Panics)
           | Some False \<Rightarrow> scalarLoop d exprs flagName envir keys s
           | Some True \<Rightarrow> setFromEnv d flagName key val s))"

fun arrayLoop ::
  "deps \<Rightarrow> string \<Rightarrow> (string \<rightharpoonup> string) \<Rightarrow> string list \<Rightarrow> state \<Rightarrow> state \<times> ret" where
  "arrayLoop d flagName envs [] s = (s, ReturnsNil)"
| "arrayLoop d flagName envs (key # keys) s =
     (case envs key of
        None \<Rightarrow> arrayLoop d flagName envs keys s
      | Some val \<Rightarrow>
          (case appendFromEnv d flagName key val s of
             (s', ReturnsNil) \<Rightarrow> arrayLoop d flagName envs keys s'
           | (s', r) \<Rightarrow> (s', r)))"

fun mapLoop ::
  "deps \<Rightarrow> string \<Rightarrow> (string \<rightharpoonup> string) \<Rightarrow> string list \<Rightarrow> state \<Rightarrow> state \<times> ret" where
  "mapLoop d flagName envs [] s = (s, ReturnsNil)"
| "mapLoop d flagName envs (key # keys) s =
     (case envs key of
        None \<Rightarrow> mapLoop d flagName envs keys s
      | Some val \<Rightarrow>
          (case setFromEnv d flagName key val s of
             (s', ReturnsNil) \<Rightarrow> mapLoop d flagName envs keys s'
           | (s', r) \<Rightarrow> (s', r)))"

text \<open>
  \<^verbatim>\<open>processEnvVars\<close>. \<open>environ\<close> is \<^verbatim>\<open>os.Environ()\<close>; \<open>order1\<close> is the order of the
  \<^verbatim>\<open>range envir\<close> that fills \<^verbatim>\<open>envs\<close>, \<open>order2\<close> the order of the \<^verbatim>\<open>range\<close> in the
  type switch (over \<^verbatim>\<open>envir\<close> for a scalar, over \<^verbatim>\<open>envs\<close> for a collection).
  \<^verbatim>\<open>lo.Reverse\<close> reverses the slice of patterns. Of the destination the function reads
  the type only, so \<open>dest\<close> is that type.
\<close>

definition processEnvVars ::
  "deps \<Rightarrow> string list \<Rightarrow> string list \<Rightarrow> string list \<Rightarrow> FlagRegexExpr list \<Rightarrow> string \<Rightarrow>
   kind \<Rightarrow> state \<Rightarrow> state \<times> ret" where
  "processEnvVars d environ order1 order2 envVarRegexExprs flagName dest s =
     (case compileLoop d envVarRegexExprs s of
        (s1, Some err) \<Rightarrow> (s1, ReturnsErr err)
      | (s1, None) \<Rightarrow>
          (case envirLoop (sort environ) Map.empty of
             None \<Rightarrow> (s1, Panics)
           | Some envir \<Rightarrow>
               (case envsLoop s1 (rev envVarRegexExprs) envir order1 Map.empty of
                  None \<Rightarrow> (s1, Panics)
                | Some envs \<Rightarrow>
                    (case dest of
                       KBool \<Rightarrow> scalarLoop d (rev envVarRegexExprs) flagName envir order2 s1
                     | KInt \<Rightarrow> scalarLoop d (rev envVarRegexExprs) flagName envir order2 s1
                     | KString \<Rightarrow> scalarLoop d (rev envVarRegexExprs) flagName envir order2 s1
                     | KDuration \<Rightarrow> scalarLoop d (rev envVarRegexExprs) flagName envir order2 s1
                     | KStringArray \<Rightarrow> arrayLoop d flagName envs order2 s1
                     | KStringToString \<Rightarrow> mapLoop d flagName envs order2 s1
                     | KOther \<Rightarrow> (s1, ReturnsErr UnsupportedType)))))"

subsection \<open>saveFlagGroupMetadata\<close>

definition saveFlagGroupMetadata :: "deps \<Rightarrow> string \<Rightarrow> FlagGroup \<Rightarrow> state \<Rightarrow> state \<times> error option" where
  "saveFlagGroupMetadata d flagName grp s =
     (case SetAnnotation flagName (FlagGroupIDAnnotationName d) [ID grp] s of
        (s1, Some err) \<Rightarrow> (s1, Some (Errorf ''set group id annotation'' err))
      | (s1, None) \<Rightarrow>
     (case SetAnnotation flagName (FlagGroupTitleAnnotationName d) [Title grp] s1 of
        (s2, Some err) \<Rightarrow> (s2, Some (Errorf ''set group title annotation'' err))
      | (s2, None) \<Rightarrow>
     (case SetAnnotation flagName (FlagGroupPriorityAnnotationName d)
             [Sprintf_d (Priority grp)] s2 of
        (s3, Some err) \<Rightarrow> (s3, Some (Errorf ''set group priority annotation'' err))
      | (s3, None) \<Rightarrow> (s3, None))))"

subsection \<open>AddFlag\<close>

text \<open>The three visibility steps of \<^verbatim>\<open>AddFlag\<close> (lines 72 to 88).\<close>

definition markVisibility :: "AddFlagOptions \<Rightarrow> string \<Rightarrow> state \<Rightarrow> state \<times> error option" where
  "markVisibility opts name s =
     (case (if Hidden opts then MarkHidden name s else (s, None)) of
        (s1, Some err) \<Rightarrow> (s1, Some (Errorf ''mark flag as hidden'' err))
      | (s1, None) \<Rightarrow>
     (case (if Deprecated opts then MarkDeprecated name s1 else (s1, None)) of
        (s2, Some err) \<Rightarrow> (s2, Some (Errorf ''mark flag as deprecated'' err))
      | (s2, None) \<Rightarrow>
     (case (if Required opts then MarkFlagRequired name s2 else (s2, None)) of
        (s3, Some err) \<Rightarrow> (s3, Some (Errorf ''mark flag as required'' err))
      | (s3, None) \<Rightarrow> (s3, None))))"

text \<open>The steps of \<^verbatim>\<open>AddFlag\<close> after \<^verbatim>\<open>processEnvVars\<close> (lines 94 to 111).\<close>

definition markTypeAndGroup :: "deps \<Rightarrow> AddFlagOptions \<Rightarrow> string \<Rightarrow> state \<Rightarrow> state \<times> ret" where
  "markTypeAndGroup d opts name s =
     (case (if Type opts = ''dir'' then
              (case MarkFlagDirname name s of
                 (s1, Some err) \<Rightarrow> (s1, Some (Errorf ''mark flag as a directory'' err))
               | (s1, None) \<Rightarrow> (s1, None))
            else if Type opts = ''file'' then
              (case MarkFlagFilename name s of
                 (s1, Some err) \<Rightarrow> (s1, Some (Errorf ''mark flag as a filename'' err))
               | (s1, None) \<Rightarrow> (s1, None))
            else (s, None)) of
        (s1, Some err) \<Rightarrow> (s1, ReturnsErr err)
      | (s1, None) \<Rightarrow>
          (case Group opts of
             None \<Rightarrow> (s1, ReturnsNil)
           | Some grp \<Rightarrow>
               (case saveFlagGroupMetadata d name grp s1 of
                  (s2, Some err) \<Rightarrow> (s2, ReturnsErr (Errorf ''save flag group metadata'' err))
                | (s2, None) \<Rightarrow> (s2, ReturnsNil))))"

text \<open>
  \<^verbatim>\<open>AddFlag\<close>. The destination is the registered flag's value, so the type parameter
  is read off the default value; \<open>environ\<close>, \<open>order1\<close> and \<open>order2\<close> are those of
  \<open>processEnvVars\<close>.
\<close>

definition AddFlag ::
  "deps \<Rightarrow> string list \<Rightarrow> string list \<Rightarrow> string list \<Rightarrow> string \<Rightarrow> fvalue \<Rightarrow> string \<Rightarrow>
   AddFlagOptions \<Rightarrow> state \<Rightarrow> state \<times> ret" where
  "AddFlag d environ order1 order2 name defaultValue help opts0 s =
     (case applyAddOptionsDefaults d opts0 (kindOf defaultValue) of
        Inl err \<Rightarrow> (s, ReturnsErr (Errorf ''apply defaults'' err))
      | Inr opts \<Rightarrow>
     (case GetEnvVarRegexesFunc opts of
        None \<Rightarrow> (s, Panics)
      | Some getEnvVarRegexes \<Rightarrow>
     (case getEnvVarRegexes s name of
        Inl err \<Rightarrow> (s, ReturnsErr (Errorf ''get env var names'' err))
      | Inr envVarRegexExprs \<Rightarrow>
     (case buildHelp help envVarRegexExprs of
        Inl err \<Rightarrow> (s, ReturnsErr (Errorf ''build help'' err))
      | Inr help' \<Rightarrow>
     (case addFlags name (ShortName opts) defaultValue help' s of
        (s1, Some err) \<Rightarrow> (s1, ReturnsErr (Errorf ''add flags'' err))
      | (s1, None) \<Rightarrow>
     (case markVisibility opts name s1 of
        (s2, Some err) \<Rightarrow> (s2, ReturnsErr err)
      | (s2, None) \<Rightarrow>
     (case processEnvVars d environ order1 order2 envVarRegexExprs name (kindOf defaultValue) s2 of
        (s3, ReturnsErr err) \<Rightarrow> (s3, ReturnsErr (Errorf ''process env vars'' err))
      | (s3, Panics) \<Rightarrow> (s3, Panics)
      | (s3, ReturnsNil) \<Rightarrow> markTypeAndGroup d opts name s3)))))))"

subsection \<open>Candidates\<close>

text \<open>
  The spec's candidate keys of a flag: a key of the environment whose value is not empty
  and that some pattern of the flag's list matches.
\<close>

definition matchesExpr :: "deps \<Rightarrow> FlagRegexExpr \<Rightarrow> string \<Rightarrow> bool" where
  "matchesExpr d regexExpr key =
     (case regexp_Compile d (Expr regexExpr) of Inl err \<Rightarrow> False | Inr regex \<Rightarrow> regex key)"

definition candidate :: "deps \<Rightarrow> FlagRegexExpr list \<Rightarrow> (string \<rightharpoonup> string) \<Rightarrow> string \<Rightarrow> bool" where
  "candidate d exprs envir key =
     (case envir key of
        None \<Rightarrow> False
      | Some val \<Rightarrow> val \<noteq> [] \<and> list_ex (\<lambda>e. matchesExpr d e key) exprs)"

text \<open>Every pattern of the list compiles.\<close>

definition compilesAll :: "deps \<Rightarrow> FlagRegexExpr list \<Rightarrow> bool" where
  "compilesAll d exprs = list_all (\<lambda>e. \<not> isl (regexp_Compile d (Expr e))) exprs"

subsection \<open>Parsers of the standard library\<close>

text \<open>
  The parsers that pflag's values call, from the Go standard library. Each returns its
  result together with its error, as the Go function does: on an error the result is
  the value Go returns with it.
\<close>

text \<open>\<^verbatim>\<open>strconv.ParseBool\<close>\<close>

definition ParseBool :: "string \<Rightarrow> bool option" where
  "ParseBool str =
     (if str \<in> set [''1'', ''t'', ''T'', ''TRUE'', ''true'', ''True''] then Some True
      else if str \<in> set [''0'', ''f'', ''F'', ''FALSE'', ''false'', ''False''] then Some False
      else None)"

text \<open>
  \<^verbatim>\<open>strconv.ParseInt(s, 0, 64)\<close>: an optional sign, then \<^verbatim>\<open>ParseUint\<close> with the base read
  off the prefix (\<^verbatim>\<open>0b\<close>, \<^verbatim>\<open>0o\<close>, \<^verbatim>\<open>0x\<close>, a leading \<^verbatim>\<open>0\<close> for octal, decimal otherwise)
  and underscores allowed where \<^verbatim>\<open>underscoreOK\<close> accepts them. A syntax error returns 0,
  a range error the nearest 64-bit value.
\<close>

definition isDigit :: "char \<Rightarrow> bool" where
  "isDigit c = (CHR ''0'' \<le> c \<and> c \<le> CHR ''9'')"

definition digitOf :: "char \<Rightarrow> nat option" where
  "digitOf c =
     (if isDigit c then Some (of_char c - 48)
      else if CHR ''a'' \<le> c \<and> c \<le> CHR ''z'' then Some (of_char c - 87)
      else if CHR ''A'' \<le> c \<and> c \<le> CHR ''Z'' then Some (of_char c - 55)
      else None)"

fun uintLoop :: "nat \<Rightarrow> string \<Rightarrow> nat \<Rightarrow> bool \<Rightarrow> (nat \<times> error option) + (nat \<times> bool)" where
  "uintLoop base [] n underscores = Inr (n, underscores)"
| "uintLoop base (c # cs) n underscores =
     (if c = CHR ''_'' then uintLoop base cs n True
      else
        (case digitOf c of
           None \<Rightarrow> Inl (0, Some (External ''invalid syntax''))
         | Some dg \<Rightarrow>
             if dg \<ge> base then Inl (0, Some (External ''invalid syntax''))
             else if n \<ge> (2 ^ 64 - 1) div base + 1
               then Inl (2 ^ 64 - 1, Some (External ''value out of range''))
             else if n * base + dg > 2 ^ 64 - 1
               then Inl (2 ^ 64 - 1, Some (External ''value out of range''))
             else uintLoop base cs (n * base + dg) underscores))"

datatype saw = SawStart | SawDigit | SawUnderscore | SawOther

fun underscoreLoop :: "bool \<Rightarrow> string \<Rightarrow> saw \<Rightarrow> bool" where
  "underscoreLoop hex [] sw = (sw \<noteq> SawUnderscore)"
| "underscoreLoop hex (c # cs) sw =
     (if isDigit c \<or> (hex \<and> (c \<in> set ''abcdefABCDEF'')) then underscoreLoop hex cs SawDigit
      else if c = CHR ''_'' then
        (if sw = SawDigit then underscoreLoop hex cs SawUnderscore else False)
      else if sw = SawUnderscore then False
      else underscoreLoop hex cs SawOther)"

definition underscoreOK :: "string \<Rightarrow> bool" where
  "underscoreOK s0 =
     (let s = (if s0 \<noteq> [] \<and> (hd s0 = CHR ''-'' \<or> hd s0 = CHR ''+'') then tl s0 else s0) in
      if length s \<ge> 2 \<and> s ! 0 = CHR ''0'' \<and> s ! 1 \<in> set ''bBoOxX''
        then underscoreLoop (s ! 1 \<in> set ''xX'') (drop 2 s) SawDigit
      else underscoreLoop False s SawStart)"

definition ParseUint :: "string \<Rightarrow> nat \<times> error option" where
  "ParseUint s =
     (if s = [] then (0, Some (External ''invalid syntax''))
      else
        (let (base, digits) =
               (if s ! 0 = CHR ''0'' then
                  (if length s \<ge> 3 \<and> s ! 1 \<in> set ''bB'' then (2, drop 2 s)
                   else if length s \<ge> 3 \<and> s ! 1 \<in> set ''oO'' then (8, drop 2 s)
                   else if length s \<ge> 3 \<and> s ! 1 \<in> set ''xX'' then (16, drop 2 s)
                   else (8, drop 1 s))
                else (10, s))
         in case uintLoop base digits 0 False of
              Inl r \<Rightarrow> r
            | Inr (n, underscores) \<Rightarrow>
                if underscores \<and> \<not> underscoreOK s then (0, Some (External ''invalid syntax''))
                else (n, None)))"

definition ParseInt :: "string \<Rightarrow> int \<times> error option" where
  "ParseInt s =
     (if s = [] then (0, Some (External ''invalid syntax''))
      else
        (let neg = (s ! 0 = CHR ''-'');
             digits = (if s ! 0 = CHR ''+'' \<or> s ! 0 = CHR ''-'' then drop 1 s else s);
             (un, err) = ParseUint digits
         in if err = Some (External ''invalid syntax'') then (0, err)
            else if \<not> neg \<and> un \<ge> 2 ^ 63 then (2 ^ 63 - 1, Some (External ''value out of range''))
            else if neg \<and> un > 2 ^ 63 then (- (2 ^ 63), Some (External ''value out of range''))
            else (if neg then - int un else int un, None)))"

text \<open>
  \<^verbatim>\<open>time.ParseDuration\<close>, in nanoseconds: an optional sign, then terms of digits, an
  optional fraction and a unit; every error returns 0. Go adds the fraction of a term as
  \<^verbatim>\<open>uint64(float64(f) * (float64(unit) / scale))\<close>; the model takes the exact quotient
  \<open>f * unit div 10 ^ k\<close>, which is that float64 value whenever \<open>10 ^ k\<close> divides the unit
  (a fraction no finer than a nanosecond).
\<close>

fun leadingInt :: "string \<Rightarrow> nat \<Rightarrow> (nat \<times> string) option" where
  "leadingInt [] x = Some (x, [])"
| "leadingInt (c # cs) x =
     (if \<not> isDigit c then Some (x, c # cs)
      else if x > 2 ^ 63 div 10 then None
      else if x * 10 + (of_char c - 48) > 2 ^ 63 then None
      else leadingInt cs (x * 10 + (of_char c - 48)))"

fun leadingFraction :: "string \<Rightarrow> nat \<Rightarrow> nat \<Rightarrow> bool \<Rightarrow> nat \<times> nat \<times> string" where
  "leadingFraction [] x k overflow = (x, k, [])"
| "leadingFraction (c # cs) x k overflow =
     (if \<not> isDigit c then (x, k, c # cs)
      else if overflow then leadingFraction cs x k True
      else if x > (2 ^ 63 - 1) div 10 then leadingFraction cs x k True
      else if x * 10 + (of_char c - 48) > 2 ^ 63 then leadingFraction cs x k True
      else leadingFraction cs (x * 10 + (of_char c - 48)) (Suc k) False)"

definition unitMap :: "string \<Rightarrow> nat option" where
  "unitMap u =
     (if u = ''ns'' then Some 1
      else if u = ''us'' then Some 1000
      else if u = [CHR 0xC2, CHR 0xB5, CHR ''s''] then Some 1000
      else if u = [CHR 0xCE, CHR 0xBC, CHR ''s''] then Some 1000
      else if u = ''ms'' then Some 1000000
      else if u = ''s'' then Some 1000000000
      else if u = ''m'' then Some 60000000000
      else if u = ''h'' then Some 3600000000000
      else None)"

definition unitChar :: "char \<Rightarrow> bool" where
  "unitChar c = (c \<noteq> CHR ''.'' \<and> \<not> isDigit c)"

text \<open>One term of a duration, from a string that is not empty: its nanoseconds and the rest.\<close>

definition durationTerm :: "string \<Rightarrow> error + (nat \<times> string)" where
  "durationTerm s =
     (if \<not> (hd s = CHR ''.'' \<or> isDigit (hd s)) then Inl (External ''time: invalid duration'')
      else
        (case leadingInt s 0 of
           None \<Rightarrow> Inl (External ''time: invalid duration'')
         | Some (v, s1) \<Rightarrow>
             (let pre = (length s1 \<noteq> length s);
                  (f, k, s2) =
                     (if s1 \<noteq> [] \<and> hd s1 = CHR ''.''
                      then leadingFraction (tl s1) 0 0 False else (0, 0, s1));
                  post = (s1 \<noteq> [] \<and> hd s1 = CHR ''.'' \<and> length s2 \<noteq> length (tl s1));
                  u = takeWhile unitChar s2;
                  s3 = dropWhile unitChar s2
              in if \<not> pre \<and> \<not> post then Inl (External ''time: invalid duration'')
                 else if u = [] then Inl (External ''time: missing unit in duration'')
                 else
                   (case unitMap u of
                      None \<Rightarrow> Inl (External ''time: unknown unit in duration'')
                    | Some unit \<Rightarrow>
                        if v > 2 ^ 63 div unit then Inl (External ''time: invalid duration'')
                        else if f > 0 then
                          (if v * unit + (f * unit) div 10 ^ k > 2 ^ 63
                           then Inl (External ''time: invalid duration'')
                           else Inr (v * unit + (f * unit) div 10 ^ k, s3))
                        else Inr (v * unit, s3)))))"

text \<open>
  The loop over the terms; the sum is a \<^verbatim>\<open>uint64\<close>. Every term consumes a character, so
  the loop ends (\<open>durationTerm_shorter\<close> and the termination proof, below).
\<close>

function durationLoop :: "string \<Rightarrow> nat \<Rightarrow> error + nat" where
  "durationLoop s d =
     (if s = [] then Inr d
      else
        (case durationTerm s of
           Inl err \<Rightarrow> Inl err
         | Inr (v, rest) \<Rightarrow>
             if (d + v) mod 2 ^ 64 > 2 ^ 63 then Inl (External ''time: invalid duration'')
             else durationLoop rest ((d + v) mod 2 ^ 64)))"
  by pat_completeness auto

definition ParseDuration :: "string \<Rightarrow> int \<times> error option" where
  "ParseDuration orig =
     (let neg = (orig \<noteq> [] \<and> hd orig = CHR ''-'');
          s = (if orig \<noteq> [] \<and> (hd orig = CHR ''-'' \<or> hd orig = CHR ''+'') then tl orig else orig)
      in if s = ''0'' then (0, None)
         else if s = [] then (0, Some (External ''time: invalid duration''))
         else
           (case durationLoop s 0 of
              Inl err \<Rightarrow> (0, Some err)
            | Inr d \<Rightarrow>
                if neg then (- int d, None)
                else if d > 2 ^ 63 - 1 then (0, Some (External ''time: invalid duration''))
                else (int d, None)))"

text \<open>
  \<^verbatim>\<open>csv.NewReader(strings.NewReader(val)).Read()\<close> on a value of one line: fields
  separated by commas; a field that starts with a double quote runs to its closing
  quote, a doubled quote inside it standing for one. A value with a line break is not
  modelled and is refused.
\<close>

datatype csvState = FieldStart | Bare | Quoted | QuoteSeen

fun csvLoop :: "csvState \<Rightarrow> string \<Rightarrow> string \<Rightarrow> string list \<Rightarrow> error + string list" where
  "csvLoop st [] field row =
     (if st = Quoted then Inl (External ''extraneous or missing quote in quoted-field'')
      else Inr (row @ [field]))"
| "csvLoop FieldStart (c # cs) field row =
     (if c = CHR 0x22 then csvLoop Quoted cs [] row
      else if c = CHR '','' then csvLoop FieldStart cs [] (row @ [[]])
      else csvLoop Bare cs [c] row)"
| "csvLoop Bare (c # cs) field row =
     (if c = CHR '','' then csvLoop FieldStart cs [] (row @ [field])
      else if c = CHR 0x22 then Inl (External ''bare quote in non-quoted-field'')
      else csvLoop Bare cs (field @ [c]) row)"
| "csvLoop Quoted (c # cs) field row =
     (if c = CHR 0x22 then csvLoop QuoteSeen cs field row
      else csvLoop Quoted cs (field @ [c]) row)"
| "csvLoop QuoteSeen (c # cs) field row =
     (if c = CHR 0x22 then csvLoop Quoted cs (field @ [c]) row
      else if c = CHR '','' then csvLoop FieldStart cs [] (row @ [field])
      else Inl (External ''extraneous or missing quote in quoted-field''))"

definition csvRead :: "string \<Rightarrow> error + string list" where
  "csvRead val =
     (if CHR 0x0A \<in> set val \<or> CHR 0x0D \<in> set val
        then Inl (External ''line break: outside the model'')
      else csvLoop FieldStart val [] [])"

subsection \<open>The values of pflag\<close>

text \<open>
  A Go map as the list of its entries, each key once: \<open>assign\<close> is \<^verbatim>\<open>m[k] = v\<close>. The
  order of the list carries no meaning.
\<close>

fun assign :: "string \<Rightarrow> string \<Rightarrow> (string \<times> string) list \<Rightarrow> (string \<times> string) list" where
  "assign k v [] = [(k, v)]"
| "assign k v ((k', v') # m) = (if k = k' then (k, v) # m else (k', v') # assign k v m)"

text \<open>The loop of the string-map \<^verbatim>\<open>Set\<close> that splits each pair at its first \<^verbatim>\<open>=\<close>.\<close>

fun pairsToMap :: "string list \<Rightarrow> (string \<times> string) list \<Rightarrow> error + (string \<times> string) list" where
  "pairsToMap [] out = Inr out"
| "pairsToMap (pair # rest) out =
     (if length (SplitN_eq_2 pair) \<noteq> 2
        then Inl (External (pair @ '' must be formatted as key=value''))
      else pairsToMap rest (assign (SplitN_eq_2 pair ! 0) (SplitN_eq_2 pair ! 1) out))"

text \<open>\<^verbatim>\<open>strings.Trim\<close> of \<^verbatim>\<open>val\<close> with the double quote as its cutset.\<close>

definition TrimQuotes :: "string \<Rightarrow> string" where
  "TrimQuotes val =
     rev (dropWhile (\<lambda>c. c = CHR 0x22) (rev (dropWhile (\<lambda>c. c = CHR 0x22) val)))"

text \<open>
  The \<^verbatim>\<open>Set\<close> methods of the values that \<^verbatim>\<open>addFlags\<close> registers, from the pflag
  package that \<^verbatim>\<open>flag.go\<close> imports (github.com/spf13/pflag, not among the sources):
  \<^item> bool, int, duration: \<^verbatim>\<open>v, err := parse(s); *p = v; return err\<close>. The value is
    assigned before the error is returned, so a failed parse leaves what the parser
    returned: \<^verbatim>\<open>false\<close>, 0 or the clamped integer, 0.
  \<^item> string: the value as it is, never an error.
  \<^item> string map: no \<^verbatim>\<open>=\<close> is an error; one \<^verbatim>\<open>=\<close> gives one pair, with the quotes at
    both ends trimmed; more give the fields of the CSV record. Each pair is cut at its
    first \<^verbatim>\<open>=\<close>. The first successful \<^verbatim>\<open>Set\<close> replaces the map (the default), later
    ones assign into it; the value's own \<^verbatim>\<open>changed\<close> field, the \<open>bool\<close> of
    \<open>StringToStringValue\<close>, tells them apart. An error leaves the value untouched.
  \<^item> string array: the first \<^verbatim>\<open>Set\<close> replaces the list. \<^verbatim>\<open>processEnvVars\<close> never calls
    it (line 229 calls \<^verbatim>\<open>Append\<close>, which leaves the value's own \<^verbatim>\<open>changed\<close> field
    unset), so no later \<^verbatim>\<open>Set\<close> occurs here.
  No value of another type is registered; \<open>OtherValue\<close> is refused.
\<close>

fun pflag_Set :: "fvalue \<Rightarrow> string \<Rightarrow> fvalue \<times> error option" where
  "pflag_Set (BoolValue b) val =
     (case ParseBool val of
        Some v \<Rightarrow> (BoolValue v, None)
      | None \<Rightarrow> (BoolValue False, Some (External ''invalid syntax'')))"
| "pflag_Set (IntValue i) val = (IntValue (fst (ParseInt val)), snd (ParseInt val))"
| "pflag_Set (StringValue s) val = (StringValue val, None)"
| "pflag_Set (DurationValue t) val =
     (DurationValue (fst (ParseDuration val)), snd (ParseDuration val))"
| "pflag_Set (StringArrayValue xs) val = (StringArrayValue [val], None)"
| "pflag_Set (StringToStringValue m changed) val =
     (if length (filter (\<lambda>c. c = CHR ''='') val) = 0
        then (StringToStringValue m changed,
              Some (External (val @ '' must be formatted as key=value'')))
      else
        (case (if length (filter (\<lambda>c. c = CHR ''='') val) = 1 then Inr [TrimQuotes val]
               else csvRead val) of
           Inl err \<Rightarrow> (StringToStringValue m changed, Some err)
         | Inr ss \<Rightarrow>
             (case pairsToMap ss [] of
                Inl err \<Rightarrow> (StringToStringValue m changed, Some err)
              | Inr out \<Rightarrow>
                  (StringToStringValue
                     (if \<not> changed then out else foldl (\<lambda>m (k, v). assign k v m) m out) True,
                   None))))"
| "pflag_Set OtherValue val = (OtherValue, Some (External ''no such value''))"

subsection \<open>A concrete framework for the examples\<close>

text \<open>
  \<^verbatim>\<open>regexp.Compile\<close> on the patterns the examples use: \<^verbatim>\<open>^WORD$\<close> matches the key
  \<^verbatim>\<open>WORD\<close>, \<^verbatim>\<open>^WORD\<close> matches the keys that start with \<^verbatim>\<open>WORD\<close>, for a \<^verbatim>\<open>WORD\<close> of
  letters, digits and underscores; \<^verbatim>\<open>(\<close> does not compile. No example uses another
  pattern, and this function refuses all of them.
\<close>

definition wordChar :: "char \<Rightarrow> bool" where
  "wordChar c =
     (c \<in> set ''abcdefghijklmnopqrstuvwxyzABCDEFGHIJKLMNOPQRSTUVWXYZ0123456789_'')"

definition anchored_Compile :: "string \<Rightarrow> error + (string \<Rightarrow> bool)" where
  "anchored_Compile expr =
     (case expr of
        [] \<Rightarrow> Inl (External ''pattern outside the examples'')
      | c # w \<Rightarrow>
          if c = CHR ''^'' \<and> w \<noteq> [] \<and> list_all wordChar w
            then Inr (\<lambda>key. take (length w) key = w)
          else if c = CHR ''^'' \<and> w \<noteq> [] \<and> last w = CHR ''$'' \<and> butlast w \<noteq> []
                  \<and> list_all wordChar (butlast w)
            then Inr (\<lambda>key. key = butlast w)
          else if expr = ''(''
            then Inl (External ''missing closing )'')
          else Inl (External ''pattern outside the examples''))"

text \<open>
  Modelled from the spec: append-value of the command framework (the \<^verbatim>\<open>Append\<close> of a
  \<^verbatim>\<open>pflag.SliceValue\<close>), not among the sources, for a string list: the value becomes one
  more entry, as it is.
\<close>

definition spec_Append :: "string list \<Rightarrow> string \<Rightarrow> string list \<times> error option" where
  "spec_Append xs val = (xs @ [val], None)"

text \<open>
  The framework of the examples. Its default resolvers return no pattern (every example
  passes its own resolver), and its annotation names are placeholders for the package's
  constants.
\<close>

definition example_deps :: deps where
  "example_deps =
     \<lparr>regexp_Compile = anchored_Compile,
      Value_Set = pflag_Set,
      SliceValue_Append = spec_Append,
      GetFlagLocalEnvVarRegexes = (\<lambda>s name. Inr []),
      GetFlagLocalMultiEnvVarRegexes = (\<lambda>s name. Inr []),
      FlagGroupIDAnnotationName = ''group-id'',
      FlagGroupTitleAnnotationName = ''group-title'',
      FlagGroupPriorityAnnotationName = ''group-priority''\<rparr>"

definition empty_state :: state where
  "empty_state = \<lparr>flags = Map.empty, definedFlagEnvVarRegexes = Map.empty, compileCalls = []\<rparr>"

text \<open>
  The candidates as a map: what the loops of lines 192 to 201 leave in \<^verbatim>\<open>envs\<close>.
\<close>

definition envsOf ::
  "deps \<Rightarrow> FlagRegexExpr list \<Rightarrow> (string \<rightharpoonup> string) \<Rightarrow> (string \<rightharpoonup> string)" where
  "envsOf d exprs envir = (\<lambda>key. if candidate d exprs envir key then envir key else None)"

text \<open>The scalar destination types of the type switch (line 204).\<close>

definition scalarKind :: "kind \<Rightarrow> bool" where
  "scalarKind dest = (dest = KBool \<or> dest = KInt \<or> dest = KString \<or> dest = KDuration)"

subsection \<open>Help composition as the spec words it\<close>

text \<open>
  Section 4.6 of the spec, in its own words and independent of \<open>buildHelp\<close>: the base
  help is made to end with a full stop, then nothing, one description under \<^verbatim>\<open>Var:\<close>, or
  the comma-joined descriptions under \<^verbatim>\<open>Vars:\<close> are appended.
\<close>

definition terminated :: "string \<Rightarrow> string" where
  "terminated baseHelp =
     (if baseHelp \<noteq> [] \<and> last baseHelp = CHR ''.'' then baseHelp else baseHelp @ ''.'')"

fun commaJoined :: "string list \<Rightarrow> string" where
  "commaJoined [] = []"
| "commaJoined (x # xs) = x @ concat (map (\<lambda>y. '', '' @ y) xs)"

fun compose :: "string \<Rightarrow> FlagRegexExpr list \<Rightarrow> string" where
  "compose baseHelp [] = terminated baseHelp"
| "compose baseHelp [p] = terminated baseHelp @ '' Var: '' @ Human p"
| "compose baseHelp ps = terminated baseHelp @ '' Vars: '' @ commaJoined (map Human ps)"

subsection \<open>The pattern catalog\<close>



section \<open>Properties\<close>

declare decimal.simps [simp del]

subsection \<open>The duration loop ends\<close>

lemma leadingInt_length: "leadingInt s x = Some (v, r) \<Longrightarrow> length r \<le> length s"
  by (induction s arbitrary: x) (auto split: if_splits intro: le_SucI)

lemma leadingFraction_length:
  "leadingFraction s x k ov = (f, k', r) \<Longrightarrow> length r \<le> length s"
  by (induction s arbitrary: x k ov) (auto split: if_splits intro: le_SucI)

lemma durationTerm_shorter:
  assumes "durationTerm s = Inr (v, r)"
  shows "length r < length s"
proof -
  from assms obtain v0 s1 where li: "leadingInt s 0 = Some (v0, s1)"
    by (auto simp: durationTerm_def split: if_splits option.splits)
  obtain f k s2 where fr:
    "(if s1 \<noteq> [] \<and> hd s1 = CHR ''.'' then leadingFraction (tl s1) 0 0 False else (0, 0, s1))
       = (f, k, s2)"
    by (metis prod_cases3)
  have l1: "length s1 \<le> length s"
    by (rule leadingInt_length [OF li])
  have l2: "length s2 \<le> length s1"
    using fr leadingFraction_length [of "tl s1" 0 0 False f k s2]
    by (cases s1) (auto split: if_splits intro: le_SucI)
  from assms li fr have u: "takeWhile unitChar s2 \<noteq> []" and r: "r = dropWhile unitChar s2"
    by (auto simp: durationTerm_def Let_def split: if_splits option.splits)
  have "length (takeWhile unitChar s2) + length (dropWhile unitChar s2) = length s2"
    by (metis length_append takeWhile_dropWhile_id)
  with u r have "length r < length s2"
    by (cases "takeWhile unitChar s2") auto
  with l1 l2 show ?thesis by simp
qed

termination durationLoop
  by (relation "measure (\<lambda>(s, d). length s)") (auto dest: durationTerm_shorter)

declare durationLoop.simps [simp del]

subsection \<open>What a failed Set leaves\<close>

lemma ParseInt_error:
  "snd (ParseInt val) = Some err \<Longrightarrow>
   fst (ParseInt val) = 0 \<or> fst (ParseInt val) = 2 ^ 63 - 1 \<or> fst (ParseInt val) = - (2 ^ 63)"
  by (auto simp: ParseInt_def Let_def split: if_splits prod.splits)

lemma ParseDuration_error: "snd (ParseDuration val) = Some err \<Longrightarrow> fst (ParseDuration val) = 0"
  by (auto simp: ParseDuration_def Let_def split: if_splits sum.splits)

lemma pflag_Set_bool_error:
  "snd (pflag_Set (BoolValue b) val) = Some err \<Longrightarrow>
   fst (pflag_Set (BoolValue b) val) = BoolValue False"
  by (auto split: option.splits)

lemma pflag_Set_duration_error:
  "snd (pflag_Set (DurationValue t) val) = Some err \<Longrightarrow>
   fst (pflag_Set (DurationValue t) val) = DurationValue 0"
  by (simp add: ParseDuration_error)

lemma pflag_Set_int_error:
  "snd (pflag_Set (IntValue i) val) = Some err \<Longrightarrow>
   fst (pflag_Set (IntValue i) val) \<in> {IntValue 0, IntValue (2 ^ 63 - 1), IntValue (- (2 ^ 63))}"
  using ParseInt_error [of val err] by auto

lemma pflag_Set_string_ok: "snd (pflag_Set (StringValue s) val) = None"
  by simp

subsection \<open>The compile loop\<close>

lemma compileLoop_flags: "compileLoop d exprs s = (s1, r) \<Longrightarrow> flags s1 = flags s"
  by (induction exprs arbitrary: s) (auto split: sum.splits)

lemma compileLoop_ok:
  "compilesAll d exprs \<Longrightarrow> \<exists>s1. compileLoop d exprs s = (s1, None)"
  by (induction exprs arbitrary: s) (auto simp: compilesAll_def split: sum.splits)


lemma compileLoop_keeps:
  "compileLoop d exprs s = (s1, r) \<Longrightarrow> definedFlagEnvVarRegexes s e = Some regex \<Longrightarrow>
   regexp_Compile d (Expr e) = Inr regex \<Longrightarrow> definedFlagEnvVarRegexes s1 e = Some regex"
proof (induction exprs arbitrary: s)
  case Nil
  then show ?case by simp
next
  case (Cons x xs)
  show ?case
  proof (cases "regexp_Compile d (Expr x)")
    case (Inl err)
    with Cons.prems show ?thesis by auto
  next
    case (Inr rx)
    let ?s = "s\<lparr>definedFlagEnvVarRegexes := (definedFlagEnvVarRegexes s)(x \<mapsto> rx),
                 compileCalls := compileCalls s @ [Expr x]\<rparr>"
    from Cons.prems Inr have run: "compileLoop d xs ?s = (s1, r)" by simp
    from Cons.prems Inr have "definedFlagEnvVarRegexes ?s e = Some regex" by auto
    from Cons.IH [OF run this Cons.prems(3)] show ?thesis .
  qed
qed

lemma compileLoop_stored:
  "compileLoop d exprs s = (s1, None) \<Longrightarrow> e \<in> set exprs \<Longrightarrow>
   \<exists>regex. regexp_Compile d (Expr e) = Inr regex \<and> definedFlagEnvVarRegexes s1 e = Some regex"
proof (induction exprs arbitrary: s)
  case Nil
  then show ?case by simp
next
  case (Cons x xs)
  then show ?case
    by (auto split: sum.splits dest: compileLoop_keeps)
qed

lemma compileLoop_MatchString:
  "compileLoop d exprs s = (s1, None) \<Longrightarrow> e \<in> set exprs \<Longrightarrow>
   MatchString s1 e key = Some (matchesExpr d e key)"
  by (auto simp: MatchString_def matchesExpr_def dest!: compileLoop_stored)

lemma compileLoop_fails:
  "\<not> compilesAll d exprs \<Longrightarrow>
   \<exists>s1 e err. compileLoop d exprs s = (s1, Some (CompileRegex (Expr e) err)) \<and> e \<in> set exprs
      \<and> regexp_Compile d (Expr e) = Inl err"
proof (induction exprs arbitrary: s)
  case Nil
  then show ?case by (simp add: compilesAll_def)
next
  case (Cons x xs)
  show ?case
  proof (cases "regexp_Compile d (Expr x)")
    case (Inl err)
    then show ?thesis by auto
  next
    case (Inr regex)
    with Cons.prems have "\<not> compilesAll d xs" by (simp add: compilesAll_def)
    from Cons.IH [OF this] Inr show ?thesis by (simp; blast)
  qed
qed

lemma scalarInner_eq:
  "\<forall>e \<in> set es. MatchString s e key = Some (matchesExpr d e key) \<Longrightarrow>
   scalarInner s es key val = Some (val \<noteq> [] \<and> list_ex (\<lambda>e. matchesExpr d e key) es)"
  by (induction es) auto

lemma envsInner_eq:
  "\<forall>e \<in> set es. MatchString s e key = Some (matchesExpr d e key) \<Longrightarrow>
   envsInner s es key val envs =
     Some (if val \<noteq> [] \<and> list_ex (\<lambda>e. matchesExpr d e key) es then envs(key \<mapsto> val) else envs)"
  by (induction es arbitrary: envs) auto

lemma envsLoop_eq:
  "\<forall>e \<in> set es. \<forall>key. MatchString s e key = Some (matchesExpr d e key) \<Longrightarrow>
   envsLoop s es envir keys envs =
     Some (\<lambda>k. if k \<in> set keys \<and> candidate d es envir k then envir k else envs k)"
proof (induction keys arbitrary: envs)
  case Nil
  then show ?case by simp
next
  case (Cons key keys)
  show ?case
  proof (cases "envir key")
    case None
    then show ?thesis using Cons by (auto simp: candidate_def intro!: ext)
  next
    case (Some val)
    then show ?thesis using Cons
      by (auto simp: envsInner_eq [where d = d] candidate_def intro!: ext)
  qed
qed

lemma scalarLoop_eq:
  "\<forall>e \<in> set es. \<forall>key. MatchString s e key = Some (matchesExpr d e key) \<Longrightarrow>
   scalarLoop d es flagName envir keys s =
     (case find (candidate d es envir) keys of
        None \<Rightarrow> (s, ReturnsNil)
      | Some key \<Rightarrow> setFromEnv d flagName key (the (envir key)) s)"
proof (induction keys)
  case Nil
  then show ?case by simp
next
  case (Cons key keys)
  show ?case
  proof (cases "envir key")
    case None
    then show ?thesis using Cons by (simp add: candidate_def)
  next
    case (Some val)
    then show ?thesis using Cons
      by (simp add: scalarInner_eq [where d = d] candidate_def)
  qed
qed

lemma candidate_rev: "candidate d (rev es) envir key = candidate d es envir key"
  by (simp add: candidate_def list_ex_iff split: option.splits)


subsection \<open>Scalar resolution\<close>

lemma processEnvVars_scalar:
  assumes run: "compileLoop d exprs s = (s1, None)"
    and env: "envirLoop (sort environ) Map.empty = Some envir"
    and dest: "scalarKind dest"
  shows "processEnvVars d environ order1 order2 exprs flagName dest s =
     (case find (candidate d exprs envir) order2 of
        None \<Rightarrow> (s1, ReturnsNil)
      | Some key \<Rightarrow> setFromEnv d flagName key (the (envir key)) s1)"
proof -
  have ms: "\<forall>e \<in> set (rev exprs). \<forall>key. MatchString s1 e key = Some (matchesExpr d e key)"
    using compileLoop_MatchString [OF run] by simp
  have cand: "candidate d (rev exprs) envir = candidate d exprs envir"
    by (rule ext) (rule candidate_rev)
  from dest show ?thesis
    unfolding scalarKind_def processEnvVars_def
    by (auto simp: run env envsLoop_eq [OF ms] scalarLoop_eq [OF ms] cand)
qed

text \<open>
  C4. For a scalar flag whose patterns all compile, and an environment (every entry of
  the form key=value) in which no key with a non-empty value matches a pattern of the
  flag, \<^verbatim>\<open>processEnvVars\<close> returns nil and leaves every flag of the command as it was:
  the value is still the declared default the flag was registered with, and the changed
  marker is still unset. This holds for every order in which the maps are visited.
\<close>

theorem no_candidate_keeps_default:
  assumes "compilesAll d exprs"
    and "envirLoop (sort environ) Map.empty = Some envir"
    and "scalarKind dest"
    and "\<forall>key. \<not> candidate d exprs envir key"
  shows "snd (processEnvVars d environ order1 order2 exprs flagName dest s) = ReturnsNil
     \<and> flags (fst (processEnvVars d environ order1 order2 exprs flagName dest s)) = flags s"
proof -
  from compileLoop_ok [OF assms(1)] obtain s1 where run: "compileLoop d exprs s = (s1, None)"
    by blast
  have "find (candidate d exprs envir) order2 = None"
    using assms(4) by (simp add: find_None_iff)
  with processEnvVars_scalar [OF run assms(2) assms(3)] compileLoop_flags [OF run]
  show ?thesis by simp
qed

theorem no_candidate_keeps_default_witness:
  "compilesAll example_deps [FlagRegexExpr ''^NELM_NAME$'' ''$NELM_NAME'']
   \<and> envirLoop (sort [''NELM_NAME='', ''HOME=/root'']) Map.empty
        = Some [''HOME'' \<mapsto> ''/root'', ''NELM_NAME'' \<mapsto> []]
   \<and> scalarKind KString
   \<and> (\<forall>key. \<not> candidate example_deps [FlagRegexExpr ''^NELM_NAME$'' ''$NELM_NAME'']
                  [''HOME'' \<mapsto> ''/root'', ''NELM_NAME'' \<mapsto> []] key)
   \<and> snd (processEnvVars example_deps [''NELM_NAME='', ''HOME=/root'']
             [''HOME'', ''NELM_NAME''] [''NELM_NAME'', ''HOME'']
             [FlagRegexExpr ''^NELM_NAME$'' ''$NELM_NAME''] ''name'' KString
             (VarP ''name'' [] (StringValue ''dflt'') ''help.'' empty_state)) = ReturnsNil
   \<and> map_option Value (flags (fst (processEnvVars example_deps [''NELM_NAME='', ''HOME=/root'']
             [''HOME'', ''NELM_NAME''] [''NELM_NAME'', ''HOME'']
             [FlagRegexExpr ''^NELM_NAME$'' ''$NELM_NAME''] ''name'' KString
             (VarP ''name'' [] (StringValue ''dflt'') ''help.'' empty_state))) ''name'')
        = Some (StringValue ''dflt'')
   \<and> map_option Changed (flags (fst (processEnvVars example_deps [''NELM_NAME='', ''HOME=/root'']
             [''HOME'', ''NELM_NAME''] [''NELM_NAME'', ''HOME'']
             [FlagRegexExpr ''^NELM_NAME$'' ''$NELM_NAME''] ''name'' KString
             (VarP ''name'' [] (StringValue ''dflt'') ''help.'' empty_state))) ''name'')
        = Some False"
proof -
  let ?exprs = "[FlagRegexExpr ''^NELM_NAME$'' ''$NELM_NAME'']"
  let ?envir = "[''HOME'' \<mapsto> ''/root'', ''NELM_NAME'' \<mapsto> []]"
  have h1: "compilesAll example_deps ?exprs"
    by (simp add: compilesAll_def example_deps_def anchored_Compile_def wordChar_def)
  have h2: "envirLoop (sort [''NELM_NAME='', ''HOME=/root'']) Map.empty = Some ?envir"
    by (simp add: SplitN_eq_2_def)
  have h3: "scalarKind KString"
    by (simp add: scalarKind_def)
  have h4: "\<forall>key. \<not> candidate example_deps ?exprs ?envir key"
    by (simp add: candidate_def matchesExpr_def example_deps_def anchored_Compile_def
        wordChar_def)
  from no_candidate_keeps_default [OF h1 h2 h3 h4, of "[''HOME'', ''NELM_NAME'']"
      "[''NELM_NAME'', ''HOME'']" "''name''"
      "VarP ''name'' [] (StringValue ''dflt'') ''help.'' empty_state"]
  show ?thesis
    using h1 h2 h3 h4 by (simp add: VarP_def empty_state_def)
qed

lemma find_sole:
  assumes "x \<in> set xs" and "P x" and "\<forall>y. P y \<longrightarrow> y = x"
  shows "find P xs = Some x"
  using assms(1)
proof (induction xs)
  case Nil
  then show ?case by simp
next
  case (Cons a xs)
  show ?case
  proof (cases "P a")
    case True
    with assms(3) have "a = x" by blast
    with True show ?thesis by simp
  next
    case False
    with assms(2) have "a \<noteq> x" by blast
    with Cons.prems have "x \<in> set xs" by simp
    with Cons.IH False show ?thesis by simp
  qed
qed

lemma sole_candidate_found:
  assumes "ranges envir order2"
    and "{k. candidate d exprs envir k} = {key}"
  shows "find (candidate d exprs envir) order2 = Some key"
proof -
  from assms(2) have cand: "candidate d exprs envir key"
    and sole: "\<forall>k. candidate d exprs envir k \<longrightarrow> k = key"
    by blast+
  from cand have "key \<in> dom envir"
    by (auto simp: candidate_def split: option.splits)
  with assms(1) have "key \<in> set order2"
    by (simp add: ranges_def)
  from find_sole [OF this cand sole] show ?thesis .
qed

text \<open>
  C5 (amended). For a scalar flag whose patterns all compile and an environment with
  exactly one candidate key (the winning key, whatever the order of the range): when
  set-value fails on its value, \<^verbatim>\<open>processEnvVars\<close> returns the error that names that key
  and that value, and the flag's value is what set-value left behind, since nothing
  restores it. With pflag that is the parser's result (\<open>pflag_Set_bool_error\<close>,
  \<open>pflag_Set_int_error\<close>, \<open>pflag_Set_duration_error\<close>), not the declared default.
\<close>

theorem invalid_value_error:
  assumes "compilesAll d exprs"
    and "envirLoop (sort environ) Map.empty = Some envir"
    and "scalarKind dest"
    and "flags s flagName = Some flag"
    and "ranges envir order2"
    and "{k. candidate d exprs envir k} = {key}"
    and "envir key = Some val"
    and "Value_Set d (Value flag) val = (v, Some err)"
  shows "snd (processEnvVars d environ order1 order2 exprs flagName dest s)
           = ReturnsErr (EnvVarNotValid key val err)
     \<and> map_option Value
          (flags (fst (processEnvVars d environ order1 order2 exprs flagName dest s)) flagName)
           = Some v"
proof -
  from compileLoop_ok [OF assms(1)] obtain s1 where run: "compileLoop d exprs s = (s1, None)"
    by blast
  have fl: "flags s1 flagName = Some flag"
    using compileLoop_flags [OF run] assms(4) by simp
  have pick: "find (candidate d exprs envir) order2 = Some key"
    by (rule sole_candidate_found [OF assms(5) assms(6)])
  show ?thesis
    by (simp add: processEnvVars_scalar [OF run assms(2) assms(3)] pick assms(7)
        setFromEnv_def fl assms(8))
qed

theorem invalid_value_error_witness:
  "compilesAll example_deps [FlagRegexExpr ''^NELM_DEBUG$'' ''$NELM_DEBUG'']
   \<and> envirLoop (sort [''NELM_DEBUG=abc'', ''HOME=/root'']) Map.empty
        = Some [''HOME'' \<mapsto> ''/root'', ''NELM_DEBUG'' \<mapsto> ''abc'']
   \<and> scalarKind KBool
   \<and> flags (VarP ''debug'' [] (BoolValue True) ''help.'' empty_state) ''debug''
        = Some \<lparr>Shorthand = [], Usage = ''help.'', Value = BoolValue True, Changed = False,
                 hidden = False, deprecated = False, required = False, pathKind = [],
                 Annotations = Map.empty\<rparr>
   \<and> ranges [''HOME'' \<mapsto> ''/root'', ''NELM_DEBUG'' \<mapsto> ''abc''] [''NELM_DEBUG'', ''HOME'']
   \<and> {k. candidate example_deps [FlagRegexExpr ''^NELM_DEBUG$'' ''$NELM_DEBUG'']
        [''HOME'' \<mapsto> ''/root'', ''NELM_DEBUG'' \<mapsto> ''abc''] k} = {''NELM_DEBUG''}
   \<and> Value_Set example_deps (BoolValue True) ''abc''
        = (BoolValue False, Some (External ''invalid syntax''))
   \<and> snd (processEnvVars example_deps [''NELM_DEBUG=abc'', ''HOME=/root'']
             [''HOME'', ''NELM_DEBUG''] [''NELM_DEBUG'', ''HOME'']
             [FlagRegexExpr ''^NELM_DEBUG$'' ''$NELM_DEBUG''] ''debug'' KBool
             (VarP ''debug'' [] (BoolValue True) ''help.'' empty_state))
        = ReturnsErr (EnvVarNotValid ''NELM_DEBUG'' ''abc'' (External ''invalid syntax''))
   \<and> map_option Value
        (flags (fst (processEnvVars example_deps [''NELM_DEBUG=abc'', ''HOME=/root'']
             [''HOME'', ''NELM_DEBUG''] [''NELM_DEBUG'', ''HOME'']
             [FlagRegexExpr ''^NELM_DEBUG$'' ''$NELM_DEBUG''] ''debug'' KBool
             (VarP ''debug'' [] (BoolValue True) ''help.'' empty_state))) ''debug'')
        = Some (BoolValue False)"
proof -
  let ?exprs = "[FlagRegexExpr ''^NELM_DEBUG$'' ''$NELM_DEBUG'']"
  let ?envir = "[''HOME'' \<mapsto> ''/root'', ''NELM_DEBUG'' \<mapsto> ''abc'']"
  let ?flag = "\<lparr>Shorthand = [], Usage = ''help.'', Value = BoolValue True, Changed = False,
                 hidden = False, deprecated = False, required = False, pathKind = [],
                 Annotations = Map.empty\<rparr>"
  have h1: "compilesAll example_deps ?exprs"
    by (simp add: compilesAll_def example_deps_def anchored_Compile_def wordChar_def)
  have h2: "envirLoop (sort [''NELM_DEBUG=abc'', ''HOME=/root'']) Map.empty = Some ?envir"
    by (simp add: SplitN_eq_2_def)
  have h3: "scalarKind KBool"
    by (simp add: scalarKind_def)
  have h4: "flags (VarP ''debug'' [] (BoolValue True) ''help.'' empty_state) ''debug'' = Some ?flag"
    by (simp add: VarP_def)
  have h5: "ranges ?envir [''NELM_DEBUG'', ''HOME'']"
    by (auto simp: ranges_def)
  have h6: "{k. candidate example_deps ?exprs ?envir k} = {''NELM_DEBUG''}"
    by (auto simp: candidate_def matchesExpr_def example_deps_def anchored_Compile_def
        wordChar_def split: if_splits)
  have h8: "?envir ''NELM_DEBUG'' = Some ''abc''"
    by simp
  have h9: "Value_Set example_deps (Value ?flag) ''abc''
              = (BoolValue False, Some (External ''invalid syntax''))"
    by (simp add: example_deps_def ParseBool_def)
  from invalid_value_error [OF h1 h2 h3 h4 h5 h6 h8 h9, of "[''HOME'', ''NELM_DEBUG'']"]
  show ?thesis
    using h1 h2 h3 h4 h5 h6 h9 by simp
qed

text \<open>
  The claim as stated fails: the boolean flag \<^verbatim>\<open>debug\<close> is registered with the default
  \<^verbatim>\<open>true\<close>, the only candidate is \<^verbatim>\<open>NELM_DEBUG=abc\<close>, and the error is returned with the
  value \<^verbatim>\<open>false\<close>.
\<close>

theorem invalid_value_counterexample:
  "map_option Value (flags (VarP ''debug'' [] (BoolValue True) ''help.'' empty_state) ''debug'')
     = Some (BoolValue True)
   \<and> snd (processEnvVars example_deps [''NELM_DEBUG=abc''] [''NELM_DEBUG''] [''NELM_DEBUG'']
        [FlagRegexExpr ''^NELM_DEBUG$'' ''$NELM_DEBUG''] ''debug'' KBool
        (VarP ''debug'' [] (BoolValue True) ''help.'' empty_state))
      = ReturnsErr (EnvVarNotValid ''NELM_DEBUG'' ''abc'' (External ''invalid syntax''))
   \<and> map_option Value (flags (fst (processEnvVars example_deps [''NELM_DEBUG=abc'']
        [''NELM_DEBUG''] [''NELM_DEBUG''] [FlagRegexExpr ''^NELM_DEBUG$'' ''$NELM_DEBUG'']
        ''debug'' KBool (VarP ''debug'' [] (BoolValue True) ''help.'' empty_state))) ''debug'')
      = Some (BoolValue False)"
  by (simp add: processEnvVars_def example_deps_def anchored_Compile_def wordChar_def
      SplitN_eq_2_def MatchString_def setFromEnv_def VarP_def empty_state_def ParseBool_def)

text \<open>
  C10 (amended). For a scalar flag whose patterns all compile and an environment with
  exactly one candidate key: when set-value fails on its value, the error is returned
  with the changed marker already set, since \<^verbatim>\<open>flag.Changed = true\<close> comes before
  \<^verbatim>\<open>flag.Value.Set(val)\<close>. The flag ends as (value = what set-value left behind,
  changed = true) and is otherwise as it was; with pflag the value left is the parser's
  result, not the declared default.
\<close>

theorem changed_set_before_value:
  assumes "compilesAll d exprs"
    and "envirLoop (sort environ) Map.empty = Some envir"
    and "scalarKind dest"
    and "flags s flagName = Some flag"
    and "ranges envir order2"
    and "{k. candidate d exprs envir k} = {key}"
    and "envir key = Some val"
    and "Value_Set d (Value flag) val = (v, Some err)"
  shows "snd (processEnvVars d environ order1 order2 exprs flagName dest s)
           = ReturnsErr (EnvVarNotValid key val err)
     \<and> flags (fst (processEnvVars d environ order1 order2 exprs flagName dest s)) flagName
           = Some (flag\<lparr>Changed := True, Value := v\<rparr>)"
proof -
  from compileLoop_ok [OF assms(1)] obtain s1 where run: "compileLoop d exprs s = (s1, None)"
    by blast
  have fl: "flags s1 flagName = Some flag"
    using compileLoop_flags [OF run] assms(4) by simp
  have pick: "find (candidate d exprs envir) order2 = Some key"
    by (rule sole_candidate_found [OF assms(5) assms(6)])
  show ?thesis
    by (simp add: processEnvVars_scalar [OF run assms(2) assms(3)] pick assms(7)
        setFromEnv_def fl assms(8))
qed

theorem changed_set_before_value_witness:
  "compilesAll example_deps [FlagRegexExpr ''^NELM_COUNT$'' ''$NELM_COUNT'']
   \<and> envirLoop (sort [''NELM_COUNT=12x'', ''HOME=/root'']) Map.empty
        = Some [''HOME'' \<mapsto> ''/root'', ''NELM_COUNT'' \<mapsto> ''12x'']
   \<and> scalarKind KInt
   \<and> flags (VarP ''count'' ''c'' (IntValue 7) ''help.'' empty_state) ''count''
        = Some \<lparr>Shorthand = ''c'', Usage = ''help.'', Value = IntValue 7, Changed = False,
                 hidden = False, deprecated = False, required = False, pathKind = [],
                 Annotations = Map.empty\<rparr>
   \<and> ranges [''HOME'' \<mapsto> ''/root'', ''NELM_COUNT'' \<mapsto> ''12x''] [''HOME'', ''NELM_COUNT'']
   \<and> {k. candidate example_deps [FlagRegexExpr ''^NELM_COUNT$'' ''$NELM_COUNT'']
        [''HOME'' \<mapsto> ''/root'', ''NELM_COUNT'' \<mapsto> ''12x''] k} = {''NELM_COUNT''}
   \<and> Value_Set example_deps (IntValue 7) ''12x''
        = (IntValue 0, Some (External ''invalid syntax''))
   \<and> snd (processEnvVars example_deps [''NELM_COUNT=12x'', ''HOME=/root'']
             [''NELM_COUNT'', ''HOME''] [''HOME'', ''NELM_COUNT'']
             [FlagRegexExpr ''^NELM_COUNT$'' ''$NELM_COUNT''] ''count'' KInt
             (VarP ''count'' ''c'' (IntValue 7) ''help.'' empty_state))
        = ReturnsErr (EnvVarNotValid ''NELM_COUNT'' ''12x'' (External ''invalid syntax''))
   \<and> flags (fst (processEnvVars example_deps [''NELM_COUNT=12x'', ''HOME=/root'']
             [''NELM_COUNT'', ''HOME''] [''HOME'', ''NELM_COUNT'']
             [FlagRegexExpr ''^NELM_COUNT$'' ''$NELM_COUNT''] ''count'' KInt
             (VarP ''count'' ''c'' (IntValue 7) ''help.'' empty_state))) ''count''
        = Some \<lparr>Shorthand = ''c'', Usage = ''help.'', Value = IntValue 0, Changed = True,
                 hidden = False, deprecated = False, required = False, pathKind = [],
                 Annotations = Map.empty\<rparr>"
proof -
  let ?exprs = "[FlagRegexExpr ''^NELM_COUNT$'' ''$NELM_COUNT'']"
  let ?envir = "[''HOME'' \<mapsto> ''/root'', ''NELM_COUNT'' \<mapsto> ''12x'']"
  let ?flag = "\<lparr>Shorthand = ''c'', Usage = ''help.'', Value = IntValue 7, Changed = False,
                 hidden = False, deprecated = False, required = False, pathKind = [],
                 Annotations = Map.empty\<rparr>"
  have h1: "compilesAll example_deps ?exprs"
    by (simp add: compilesAll_def example_deps_def anchored_Compile_def wordChar_def)
  have h2: "envirLoop (sort [''NELM_COUNT=12x'', ''HOME=/root'']) Map.empty = Some ?envir"
    by (simp add: SplitN_eq_2_def)
  have h3: "scalarKind KInt"
    by (simp add: scalarKind_def)
  have h4: "flags (VarP ''count'' ''c'' (IntValue 7) ''help.'' empty_state) ''count'' = Some ?flag"
    by (simp add: VarP_def)
  have h5: "ranges ?envir [''HOME'', ''NELM_COUNT'']"
    by (auto simp: ranges_def)
  have h6: "{k. candidate example_deps ?exprs ?envir k} = {''NELM_COUNT''}"
    by (auto simp: candidate_def matchesExpr_def example_deps_def anchored_Compile_def
        wordChar_def split: if_splits)
  have h8: "?envir ''NELM_COUNT'' = Some ''12x''"
    by simp
  have h9: "Value_Set example_deps (Value ?flag) ''12x''
              = (IntValue 0, Some (External ''invalid syntax''))"
    by (simp add: example_deps_def ParseInt_def ParseUint_def digitOf_def isDigit_def)
  from changed_set_before_value [OF h1 h2 h3 h4 h5 h6 h8 h9, of "[''NELM_COUNT'', ''HOME'']"]
  show ?thesis
    using h1 h2 h3 h4 h5 h6 h9 by simp
qed

text \<open>
  The claim as stated fails: the duration flag \<^verbatim>\<open>timeout\<close> is registered with the
  default of five seconds, the only candidate is \<^verbatim>\<open>NELM_TIMEOUT=abc\<close>, and the error
  leaves the flag as (value = 0, changed = true).
\<close>

theorem changed_value_counterexample:
  "snd (processEnvVars example_deps [''NELM_TIMEOUT=abc''] [''NELM_TIMEOUT''] [''NELM_TIMEOUT'']
        [FlagRegexExpr ''^NELM_TIMEOUT$'' ''$NELM_TIMEOUT''] ''timeout'' KDuration
        (VarP ''timeout'' [] (DurationValue 5000000000) ''help.'' empty_state))
      = ReturnsErr (EnvVarNotValid ''NELM_TIMEOUT'' ''abc'' (External ''time: invalid duration''))
   \<and> flags (fst (processEnvVars example_deps [''NELM_TIMEOUT=abc''] [''NELM_TIMEOUT'']
        [''NELM_TIMEOUT''] [FlagRegexExpr ''^NELM_TIMEOUT$'' ''$NELM_TIMEOUT''] ''timeout''
        KDuration (VarP ''timeout'' [] (DurationValue 5000000000) ''help.'' empty_state)))
        ''timeout''
      = Some \<lparr>Shorthand = [], Usage = ''help.'', Value = DurationValue 0, Changed = True,
               hidden = False, deprecated = False, required = False, pathKind = [],
               Annotations = Map.empty\<rparr>"
  by (simp add: processEnvVars_def example_deps_def anchored_Compile_def wordChar_def
      SplitN_eq_2_def MatchString_def setFromEnv_def VarP_def empty_state_def
      ParseDuration_def durationLoop.simps durationTerm_def isDigit_def unitChar_def)

subsection \<open>Collection resolution\<close>

lemma dom_envsOf: "dom (envsOf d exprs envir) = {key. candidate d exprs envir key}"
  by (auto simp: envsOf_def candidate_def split: option.splits if_splits)

text \<open>
  C6. The string-list branch does not give the N entries of the N candidates when the
  declared default is not empty: it calls \<^verbatim>\<open>Append\<close>, which keeps the default, where the
  doc comment of \<^verbatim>\<open>AddFlagOptions\<close> ranks the default below the environment values
  that become the flag value, and where the sibling string-map branch calls \<^verbatim>\<open>Set\<close>,
  which replaces the default. Here the list flag has the default \<^verbatim>\<open>["d"]\<close> and the one
  candidate \<^verbatim>\<open>NELM_LIST_1=a\<close>, and ends with the two entries \<^verbatim>\<open>d\<close> and \<^verbatim>\<open>a\<close>; the map
  flag has the default \<^verbatim>\<open>d=x\<close> and the one candidate \<^verbatim>\<open>NELM_LABEL_A=env=prod\<close>, and
  ends with the one entry \<^verbatim>\<open>env=prod\<close>.
\<close>

theorem string_list_keeps_default:
  "card {key. candidate example_deps [FlagRegexExpr ''^NELM_LIST_'' ''$NELM_LIST_*'']
                [''NELM_LIST_1'' \<mapsto> ''a''] key} = 1
   \<and> envirLoop (sort [''NELM_LIST_1=a'']) Map.empty = Some [''NELM_LIST_1'' \<mapsto> ''a'']
   \<and> ranges [''NELM_LIST_1'' \<mapsto> ''a''] [''NELM_LIST_1'']
   \<and> snd (processEnvVars example_deps [''NELM_LIST_1=a''] [''NELM_LIST_1''] [''NELM_LIST_1'']
        [FlagRegexExpr ''^NELM_LIST_'' ''$NELM_LIST_*''] ''list'' KStringArray
        (VarP ''list'' [] (StringArrayValue [''d'']) ''help.'' empty_state)) = ReturnsNil
   \<and> map_option Value (flags (fst (processEnvVars example_deps [''NELM_LIST_1=a'']
        [''NELM_LIST_1''] [''NELM_LIST_1''] [FlagRegexExpr ''^NELM_LIST_'' ''$NELM_LIST_*'']
        ''list'' KStringArray
        (VarP ''list'' [] (StringArrayValue [''d'']) ''help.'' empty_state))) ''list'')
      = Some (StringArrayValue [''d'', ''a''])
   \<and> snd (processEnvVars example_deps [''NELM_LABEL_A=env=prod''] [''NELM_LABEL_A'']
        [''NELM_LABEL_A''] [FlagRegexExpr ''^NELM_LABEL_'' ''$NELM_LABEL_*''] ''labels''
        KStringToString
        (VarP ''labels'' [] (StringToStringValue [(''d'', ''x'')] False) ''help.'' empty_state))
      = ReturnsNil
   \<and> map_option Value (flags (fst (processEnvVars example_deps [''NELM_LABEL_A=env=prod'']
        [''NELM_LABEL_A''] [''NELM_LABEL_A'']
        [FlagRegexExpr ''^NELM_LABEL_'' ''$NELM_LABEL_*''] ''labels'' KStringToString
        (VarP ''labels'' [] (StringToStringValue [(''d'', ''x'')] False) ''help.'' empty_state)))
        ''labels'')
      = Some (StringToStringValue [(''env'', ''prod'')] True)"
proof -
  have c: "{key. candidate example_deps [FlagRegexExpr ''^NELM_LIST_'' ''$NELM_LIST_*'']
                [''NELM_LIST_1'' \<mapsto> ''a''] key} = {''NELM_LIST_1''}"
    by (auto simp: candidate_def matchesExpr_def example_deps_def anchored_Compile_def
        wordChar_def split: if_splits)
  show ?thesis
    unfolding c
    by (simp add: processEnvVars_def example_deps_def anchored_Compile_def wordChar_def
        SplitN_eq_2_def MatchString_def appendFromEnv_def setFromEnv_def spec_Append_def
        VarP_def empty_state_def ranges_def TrimQuotes_def)
qed

subsection \<open>Which candidate wins\<close>

text \<open>
  C1. The documented priority (\<^verbatim>\<open>AddFlagOptions.GetEnvVarRegexesFunc\<close>: from first to
  last regexp, the last has the higher priority) is not what the scalar branch computes:
  it sets the first candidate key that the range over \<^verbatim>\<open>envir\<close> visits, whatever pattern
  matched it (\<open>processEnvVars_scalar\<close>). Here the patterns are \<^verbatim>\<open>^NELM_A$\<close> (lowest) and
  \<^verbatim>\<open>^NELM_B$\<close> (highest), the environment has \<^verbatim>\<open>NELM_A=low\<close> and \<^verbatim>\<open>NELM_B=high\<close>, and
  the range visits \<^verbatim>\<open>NELM_A\<close> first: the flag gets \<^verbatim>\<open>low\<close>, the value of the pattern of
  lowest priority.
\<close>

theorem first_visited_key_wins:
  "envirLoop (sort [''NELM_B=high'', ''NELM_A=low'']) Map.empty
     = Some [''NELM_A'' \<mapsto> ''low'', ''NELM_B'' \<mapsto> ''high'']
   \<and> ranges [''NELM_A'' \<mapsto> ''low'', ''NELM_B'' \<mapsto> ''high''] [''NELM_A'', ''NELM_B'']
   \<and> matchesExpr example_deps (FlagRegexExpr ''^NELM_A$'' ''$NELM_A'') ''NELM_A''
   \<and> matchesExpr example_deps (FlagRegexExpr ''^NELM_B$'' ''$NELM_B'') ''NELM_B''
   \<and> snd (processEnvVars example_deps [''NELM_B=high'', ''NELM_A=low'']
        [''NELM_A'', ''NELM_B''] [''NELM_A'', ''NELM_B'']
        [FlagRegexExpr ''^NELM_A$'' ''$NELM_A'', FlagRegexExpr ''^NELM_B$'' ''$NELM_B'']
        ''name'' KString (VarP ''name'' [] (StringValue ''dflt'') ''help.'' empty_state))
      = ReturnsNil
   \<and> flags (fst (processEnvVars example_deps [''NELM_B=high'', ''NELM_A=low'']
        [''NELM_A'', ''NELM_B''] [''NELM_A'', ''NELM_B'']
        [FlagRegexExpr ''^NELM_A$'' ''$NELM_A'', FlagRegexExpr ''^NELM_B$'' ''$NELM_B'']
        ''name'' KString (VarP ''name'' [] (StringValue ''dflt'') ''help.'' empty_state)))
        ''name''
      = Some \<lparr>Shorthand = [], Usage = ''help.'', Value = StringValue ''low'',
               Changed = True, hidden = False, deprecated = False, required = False,
               pathKind = [], Annotations = Map.empty\<rparr>"
proof -
  have r: "ranges [''NELM_A'' \<mapsto> ''low'', ''NELM_B'' \<mapsto> ''high''] [''NELM_A'', ''NELM_B'']"
    by (auto simp: ranges_def)
  show ?thesis
    using r
    by (simp add: processEnvVars_def example_deps_def anchored_Compile_def wordChar_def
        SplitN_eq_2_def MatchString_def setFromEnv_def VarP_def empty_state_def
        matchesExpr_def)
qed

text \<open>
  C7. Two runs over one environment need not agree: the order of a range over a map is
  not fixed, and the sort of line 184 is lost when the entries go into the map
  \<^verbatim>\<open>envir\<close>. Here one pattern, \<^verbatim>\<open>^NELM_LIST_\<close>, matches both keys of the environment,
  both orders are orders of the candidate map, and the string list ends as
  \<^verbatim>\<open>[a, b]\<close> in one run and as \<^verbatim>\<open>[b, a]\<close> (not ascending by key) in the other.
\<close>

theorem visiting_order_decides:
  "envirLoop (sort [''NELM_LIST_1=a'', ''NELM_LIST_2=b'']) Map.empty
     = Some [''NELM_LIST_1'' \<mapsto> ''a'', ''NELM_LIST_2'' \<mapsto> ''b'']
   \<and> ranges (envsOf example_deps [FlagRegexExpr ''^NELM_LIST_'' ''$NELM_LIST_*'']
        [''NELM_LIST_1'' \<mapsto> ''a'', ''NELM_LIST_2'' \<mapsto> ''b'']) [''NELM_LIST_1'', ''NELM_LIST_2'']
   \<and> ranges (envsOf example_deps [FlagRegexExpr ''^NELM_LIST_'' ''$NELM_LIST_*'']
        [''NELM_LIST_1'' \<mapsto> ''a'', ''NELM_LIST_2'' \<mapsto> ''b'']) [''NELM_LIST_2'', ''NELM_LIST_1'']
   \<and> map_option Value (flags (fst (processEnvVars example_deps
        [''NELM_LIST_1=a'', ''NELM_LIST_2=b'']
        [''NELM_LIST_1'', ''NELM_LIST_2''] [''NELM_LIST_1'', ''NELM_LIST_2'']
        [FlagRegexExpr ''^NELM_LIST_'' ''$NELM_LIST_*''] ''list'' KStringArray
        (VarP ''list'' [] (StringArrayValue []) ''help.'' empty_state))) ''list'')
      = Some (StringArrayValue [''a'', ''b''])
   \<and> map_option Value (flags (fst (processEnvVars example_deps
        [''NELM_LIST_1=a'', ''NELM_LIST_2=b'']
        [''NELM_LIST_1'', ''NELM_LIST_2''] [''NELM_LIST_2'', ''NELM_LIST_1'']
        [FlagRegexExpr ''^NELM_LIST_'' ''$NELM_LIST_*''] ''list'' KStringArray
        (VarP ''list'' [] (StringArrayValue []) ''help.'' empty_state))) ''list'')
      = Some (StringArrayValue [''b'', ''a''])"
proof -
  have c: "{key. candidate example_deps [FlagRegexExpr ''^NELM_LIST_'' ''$NELM_LIST_*'']
              [''NELM_LIST_1'' \<mapsto> ''a'', ''NELM_LIST_2'' \<mapsto> ''b''] key}
            = {''NELM_LIST_1'', ''NELM_LIST_2''}"
    by (auto simp: candidate_def matchesExpr_def example_deps_def anchored_Compile_def
        wordChar_def split: if_splits)
  have r: "ranges (envsOf example_deps [FlagRegexExpr ''^NELM_LIST_'' ''$NELM_LIST_*'']
        [''NELM_LIST_1'' \<mapsto> ''a'', ''NELM_LIST_2'' \<mapsto> ''b'']) [''NELM_LIST_1'', ''NELM_LIST_2'']"
    "ranges (envsOf example_deps [FlagRegexExpr ''^NELM_LIST_'' ''$NELM_LIST_*'']
        [''NELM_LIST_1'' \<mapsto> ''a'', ''NELM_LIST_2'' \<mapsto> ''b'']) [''NELM_LIST_2'', ''NELM_LIST_1'']"
    by (auto simp: ranges_def dom_envsOf c)
  have e: "envirLoop (sort [''NELM_LIST_1=a'', ''NELM_LIST_2=b'']) Map.empty
     = Some [''NELM_LIST_1'' \<mapsto> ''a'', ''NELM_LIST_2'' \<mapsto> ''b'']"
    by (simp add: SplitN_eq_2_def)
  have v1: "map_option Value (flags (fst (processEnvVars example_deps
        [''NELM_LIST_1=a'', ''NELM_LIST_2=b'']
        [''NELM_LIST_1'', ''NELM_LIST_2''] [''NELM_LIST_1'', ''NELM_LIST_2'']
        [FlagRegexExpr ''^NELM_LIST_'' ''$NELM_LIST_*''] ''list'' KStringArray
        (VarP ''list'' [] (StringArrayValue []) ''help.'' empty_state))) ''list'')
      = Some (StringArrayValue [''a'', ''b''])"
    by (simp add: processEnvVars_def example_deps_def anchored_Compile_def wordChar_def
        SplitN_eq_2_def MatchString_def appendFromEnv_def spec_Append_def VarP_def
        empty_state_def)
  have v2: "map_option Value (flags (fst (processEnvVars example_deps
        [''NELM_LIST_1=a'', ''NELM_LIST_2=b'']
        [''NELM_LIST_1'', ''NELM_LIST_2''] [''NELM_LIST_2'', ''NELM_LIST_1'']
        [FlagRegexExpr ''^NELM_LIST_'' ''$NELM_LIST_*''] ''list'' KStringArray
        (VarP ''list'' [] (StringArrayValue []) ''help.'' empty_state))) ''list'')
      = Some (StringArrayValue [''b'', ''a''])"
    by (simp add: processEnvVars_def example_deps_def anchored_Compile_def wordChar_def
        SplitN_eq_2_def MatchString_def appendFromEnv_def spec_Append_def VarP_def
        empty_state_def)
  from e r v1 v2 show ?thesis
    by blast
qed

subsection \<open>Registration\<close>

lemma processEnvVars_compile_error:
  assumes "\<not> compilesAll d exprs"
  shows "\<exists>e err. e \<in> set exprs \<and> regexp_Compile d (Expr e) = Inl err
     \<and> snd (processEnvVars d environ order1 order2 exprs flagName dest s)
          = ReturnsErr (CompileRegex (Expr e) err)
     \<and> flags (fst (processEnvVars d environ order1 order2 exprs flagName dest s)) = flags s"
proof -
  from compileLoop_fails [OF assms, of s] obtain s1 e err where
    run: "compileLoop d exprs s = (s1, Some (CompileRegex (Expr e) err))"
    and e: "e \<in> set exprs" "regexp_Compile d (Expr e) = Inl err"
    by blast
  have "processEnvVars d environ order1 order2 exprs flagName dest s
          = (s1, ReturnsErr (CompileRegex (Expr e) err))"
    by (simp add: processEnvVars_def run)
  with e compileLoop_flags [OF run] show ?thesis by auto
qed

lemma changeFlag_present:
  "flags s name = Some f \<Longrightarrow>
   changeFlag name g s = (s\<lparr>flags := (flags s)(name \<mapsto> g f)\<rparr>, None)"
  by (simp add: changeFlag_def)

lemma markVisibility_present:
  assumes "flags s name = Some f"
  shows "\<exists>s2 f2. markVisibility opts name s = (s2, None) \<and> flags s2 name = Some f2
     \<and> Value f2 = Value f \<and> Changed f2 = Changed f"
  using assms
  by (cases "Hidden opts"; cases "Deprecated opts"; cases "Required opts")
     (simp_all add: markVisibility_def MarkHidden_def MarkDeprecated_def MarkFlagRequired_def
        changeFlag_present)

lemma buildHelp_Inr: "\<exists>h. buildHelp help exprs = Inr h"
  by (simp add: buildHelp_def Let_def)

lemma addFlags_supported:
  "kindOf defaultValue \<noteq> KOther \<Longrightarrow>
   addFlags name shortName defaultValue help s = (VarP name shortName defaultValue help s, None)"
  by (cases defaultValue) (simp_all add: addFlags_def)

text \<open>
  C2 (amended). For a registration of a supported kind whose resolver (the caller's, or
  the default one) returns a pattern list with a pattern that does not compile,
  \<^verbatim>\<open>AddFlag\<close> returns the error \<^verbatim>\<open>process env vars: compile regex ...\<close> that names the
  text of such a pattern. The flag is registered by then (\<^verbatim>\<open>addFlags\<close> runs before
  \<^verbatim>\<open>processEnvVars\<close>) and stays on the command, with the declared default as its value
  and the changed marker unset.
\<close>

theorem malformed_pattern_after_registration:
  assumes "kindOf defaultValue \<noteq> KOther"
    and "applyAddOptionsDefaults d opts0 (kindOf defaultValue) = Inr opts"
    and "GetEnvVarRegexesFunc opts = Some getEnvVarRegexes"
    and "getEnvVarRegexes s name = Inr exprs"
    and "\<not> compilesAll d exprs"
  shows "\<exists>e err. e \<in> set exprs \<and> regexp_Compile d (Expr e) = Inl err
     \<and> snd (AddFlag d environ order1 order2 name defaultValue helpText opts0 s)
          = ReturnsErr (Errorf ''process env vars'' (CompileRegex (Expr e) err))
     \<and> map_option Value
          (flags (fst (AddFlag d environ order1 order2 name defaultValue helpText opts0 s)) name)
          = Some defaultValue
     \<and> map_option Changed
          (flags (fst (AddFlag d environ order1 order2 name defaultValue helpText opts0 s)) name)
          = Some False"
proof -
  obtain h where h: "buildHelp helpText exprs = Inr h"
    using buildHelp_Inr by blast
  let ?s1 = "VarP name (ShortName opts) defaultValue h s"
  have add: "addFlags name (ShortName opts) defaultValue h s = (?s1, None)"
    by (rule addFlags_supported [OF assms(1)])
  have "\<exists>f. flags ?s1 name = Some f \<and> Value f = defaultValue \<and> Changed f = False"
    by (simp add: VarP_def)
  then obtain f where f: "flags ?s1 name = Some f" "Value f = defaultValue" "Changed f = False"
    by blast
  from markVisibility_present [OF f(1), of opts] obtain s2 f2 where
    vis: "markVisibility opts name ?s1 = (s2, None)"
    and f2: "flags s2 name = Some f2" "Value f2 = Value f" "Changed f2 = Changed f"
    by blast
  from processEnvVars_compile_error [OF assms(5), of environ order1 order2 name
      "kindOf defaultValue" s2]
  obtain e err where e: "e \<in> set exprs" "regexp_Compile d (Expr e) = Inl err"
    and run: "snd (processEnvVars d environ order1 order2 exprs name (kindOf defaultValue) s2)
                = ReturnsErr (CompileRegex (Expr e) err)"
    and keep: "flags (fst (processEnvVars d environ order1 order2 exprs name
                (kindOf defaultValue) s2)) = flags s2"
    by blast
  obtain s3 where s3: "processEnvVars d environ order1 order2 exprs name (kindOf defaultValue) s2
      = (s3, ReturnsErr (CompileRegex (Expr e) err))"
    using run by (metis prod.collapse)
  have "AddFlag d environ order1 order2 name defaultValue helpText opts0 s
      = (s3, ReturnsErr (Errorf ''process env vars'' (CompileRegex (Expr e) err)))"
    by (simp add: AddFlag_def assms(2) assms(3) assms(4) h add vis s3)
  moreover have "flags s3 = flags s2"
    using keep s3 by simp
  ultimately show ?thesis
    using e f f2 by auto
qed

theorem malformed_pattern_after_registration_witness:
  "kindOf (BoolValue False) \<noteq> KOther
   \<and> applyAddOptionsDefaults example_deps
        \<lparr>GetEnvVarRegexesFunc =
           Some (\<lambda>s name. Inr [FlagRegexExpr ''^NELM_DRY$'' ''$NELM_DRY'',
                               FlagRegexExpr ''('' ''$BAD'']),
         Group = None, Type = [], ShortName = ''n'', Deprecated = False, Hidden = True,
         Required = False\<rparr> (kindOf (BoolValue False))
      = Inr \<lparr>GetEnvVarRegexesFunc =
           Some (\<lambda>s name. Inr [FlagRegexExpr ''^NELM_DRY$'' ''$NELM_DRY'',
                               FlagRegexExpr ''('' ''$BAD'']),
         Group = None, Type = [], ShortName = ''n'', Deprecated = False, Hidden = True,
         Required = False\<rparr>
   \<and> \<not> compilesAll example_deps
        [FlagRegexExpr ''^NELM_DRY$'' ''$NELM_DRY'', FlagRegexExpr ''('' ''$BAD'']
   \<and> snd (AddFlag example_deps [''NELM_DRY=true''] [''NELM_DRY''] [''NELM_DRY''] ''dry''
        (BoolValue False) ''Dry run.''
        \<lparr>GetEnvVarRegexesFunc =
           Some (\<lambda>s name. Inr [FlagRegexExpr ''^NELM_DRY$'' ''$NELM_DRY'',
                               FlagRegexExpr ''('' ''$BAD'']),
         Group = None, Type = [], ShortName = ''n'', Deprecated = False, Hidden = True,
         Required = False\<rparr> empty_state)
      = ReturnsErr (Errorf ''process env vars''
          (CompileRegex ''('' (External ''missing closing )'')))
   \<and> map_option Value (flags (fst (AddFlag example_deps [''NELM_DRY=true''] [''NELM_DRY'']
        [''NELM_DRY''] ''dry'' (BoolValue False) ''Dry run.''
        \<lparr>GetEnvVarRegexesFunc =
           Some (\<lambda>s name. Inr [FlagRegexExpr ''^NELM_DRY$'' ''$NELM_DRY'',
                               FlagRegexExpr ''('' ''$BAD'']),
         Group = None, Type = [], ShortName = ''n'', Deprecated = False, Hidden = True,
         Required = False\<rparr> empty_state)) ''dry'') = Some (BoolValue False)
   \<and> map_option Changed (flags (fst (AddFlag example_deps [''NELM_DRY=true''] [''NELM_DRY'']
        [''NELM_DRY''] ''dry'' (BoolValue False) ''Dry run.''
        \<lparr>GetEnvVarRegexesFunc =
           Some (\<lambda>s name. Inr [FlagRegexExpr ''^NELM_DRY$'' ''$NELM_DRY'',
                               FlagRegexExpr ''('' ''$BAD'']),
         Group = None, Type = [], ShortName = ''n'', Deprecated = False, Hidden = True,
         Required = False\<rparr> empty_state)) ''dry'') = Some False"
proof -
  let ?exprs = "[FlagRegexExpr ''^NELM_DRY$'' ''$NELM_DRY'', FlagRegexExpr ''('' ''$BAD'']"
  let ?f = "\<lambda>(s::state) (name::string). (Inr ?exprs :: error + FlagRegexExpr list)"
  let ?opts = "\<lparr>GetEnvVarRegexesFunc = Some ?f,
         Group = None, Type = [], ShortName = ''n'', Deprecated = False, Hidden = True,
         Required = False\<rparr>"
  have h1: "kindOf (BoolValue False) \<noteq> KOther"
    by simp
  have h2: "applyAddOptionsDefaults example_deps ?opts (kindOf (BoolValue False)) = Inr ?opts"
    by (simp add: applyAddOptionsDefaults_def)
  have h3: "GetEnvVarRegexesFunc ?opts = Some ?f"
    by simp
  have h4: "?f empty_state ''dry'' = Inr ?exprs"
    by simp
  have h5: "\<not> compilesAll example_deps ?exprs"
    by (simp add: compilesAll_def example_deps_def anchored_Compile_def wordChar_def)
  have c1: "regexp_Compile example_deps ''^NELM_DRY$'' = Inr (\<lambda>key. key = ''NELM_DRY'')"
    by (simp add: example_deps_def anchored_Compile_def wordChar_def)
  have c2: "regexp_Compile example_deps ''('' = Inl (External ''missing closing )'')"
    by (simp add: example_deps_def anchored_Compile_def wordChar_def)
  from malformed_pattern_after_registration [where d = example_deps
      and defaultValue = "BoolValue False" and opts0 = ?opts and opts = ?opts
      and getEnvVarRegexes = ?f and s = empty_state and name = "''dry''" and exprs = ?exprs
      and environ = "[''NELM_DRY=true'']" and ?order1.0 = "[''NELM_DRY'']"
      and ?order2.0 = "[''NELM_DRY'']" and helpText = "''Dry run.''", OF h1 h2 h3 h4 h5]
  show ?thesis
    using h1 h2 h5 by (auto simp: c1 c2)
qed

text \<open>
  The claim as stated fails: after the error for the pattern \<^verbatim>\<open>(\<close> the command, which
  had no flag \<^verbatim>\<open>name\<close>, has one.
\<close>

theorem malformed_pattern_counterexample:
  "flags empty_state ''name'' = None
   \<and> snd (AddFlag example_deps [] [] [] ''name'' (StringValue ''dflt'') ''help''
        \<lparr>GetEnvVarRegexesFunc = Some (\<lambda>s name. Inr [FlagRegexExpr ''('' ''$BAD'']),
         Group = None, Type = [], ShortName = [], Deprecated = False, Hidden = False,
         Required = False\<rparr> empty_state)
      = ReturnsErr (Errorf ''process env vars''
          (CompileRegex ''('' (External ''missing closing )'')))
   \<and> flags (fst (AddFlag example_deps [] [] [] ''name'' (StringValue ''dflt'') ''help''
        \<lparr>GetEnvVarRegexesFunc = Some (\<lambda>s name. Inr [FlagRegexExpr ''('' ''$BAD'']),
         Group = None, Type = [], ShortName = [], Deprecated = False, Hidden = False,
         Required = False\<rparr> empty_state)) ''name''
      = Some \<lparr>Shorthand = [], Usage = ''help. Var: $BAD'', Value = StringValue ''dflt'',
               Changed = False, hidden = False, deprecated = False, required = False,
               pathKind = [], Annotations = Map.empty\<rparr>"
  by (simp add: AddFlag_def applyAddOptionsDefaults_def buildHelp_def HasSuffix_dot_def
      addFlags_def VarP_def markVisibility_def processEnvVars_def example_deps_def
      anchored_Compile_def wordChar_def empty_state_def)

subsection \<open>Compiling again\<close>










subsection \<open>Help composition\<close>

lemma Join_commaJoined: "Join xs '', '' = commaJoined xs"
  by (induction xs "'', ''" rule: Join.induct) simp_all

text \<open>
  C8. \<^verbatim>\<open>buildHelp\<close> never fails and computes the spec's composition: the base help, made
  to end with a full stop, followed by nothing for no pattern, by the description under
  \<^verbatim>\<open>Var:\<close> for one pattern, and by the comma-joined descriptions under \<^verbatim>\<open>Vars:\<close> for
  more.
\<close>

theorem buildHelp_compose:
  "buildHelp baseHelp patterns = Inr (compose baseHelp patterns)
   \<and> terminated baseHelp \<noteq> [] \<and> last (terminated baseHelp) = CHR ''.''"
proof -
  have "buildHelp baseHelp patterns = Inr (compose baseHelp patterns)"
  proof (cases patterns)
    case Nil
    then show ?thesis
      by (simp add: buildHelp_def terminated_def HasSuffix_dot_def)
  next
    case (Cons p ps)
    then show ?thesis
      by (cases ps)
        (simp_all add: buildHelp_def terminated_def HasSuffix_dot_def Join_commaJoined)
  qed
  then show ?thesis
    by (simp add: terminated_def)
qed

subsection \<open>Group metadata\<close>

lemma SetAnnotation_present:
  "flags s name = Some f \<Longrightarrow>
   SetAnnotation name key values s =
     (s\<lparr>flags := (flags s)(name \<mapsto> f\<lparr>Annotations := (Annotations f)(key \<mapsto> values)\<rparr>)\<rparr>, None)"
  by (simp add: SetAnnotation_def changeFlag_def)

lemma SetAnnotation_absent:
  "flags s name = None \<Longrightarrow>
   SetAnnotation name key values s = (s, Some (External ''no such flag''))"
  by (simp add: SetAnnotation_def changeFlag_def)

text \<open>
  C9 (amended). \<^verbatim>\<open>saveFlagGroupMetadata\<close> validates nothing: for every group, an empty
  id included, and a flag the command has, it stores the id, the title and the priority
  (in decimal) as the flag's three annotations and returns nil. Its only failure is the
  framework's annotation-write error (the command has no such flag), which it returns
  wrapped, with nothing stored.
\<close>

theorem group_metadata_stored_unchecked:
  "(flags s flagName = Some flag \<longrightarrow>
      saveFlagGroupMetadata d flagName grp s =
        (s\<lparr>flags := (flags s)(flagName \<mapsto>
            flag\<lparr>Annotations := (Annotations flag)
              (FlagGroupIDAnnotationName d \<mapsto> [ID grp],
               FlagGroupTitleAnnotationName d \<mapsto> [Title grp],
               FlagGroupPriorityAnnotationName d \<mapsto> [Sprintf_d (Priority grp)])\<rparr>)\<rparr>, None))
   \<and> (flags s flagName = None \<longrightarrow>
      saveFlagGroupMetadata d flagName grp s =
        (s, Some (Errorf ''set group id annotation'' (External ''no such flag''))))"
  by (simp add: saveFlagGroupMetadata_def SetAnnotation_present SetAnnotation_absent)

theorem group_metadata_stored_unchecked_witness:
  "flags (VarP ''name'' [] (StringValue ''dflt'') ''help.'' empty_state) ''name''
      = Some \<lparr>Shorthand = [], Usage = ''help.'', Value = StringValue ''dflt'',
               Changed = False, hidden = False, deprecated = False, required = False,
               pathKind = [], Annotations = Map.empty\<rparr>
   \<and> snd (saveFlagGroupMetadata example_deps ''name''
        \<lparr>ID = ''main'', Title = ''Main options'', Priority = - 5\<rparr>
        (VarP ''name'' [] (StringValue ''dflt'') ''help.'' empty_state)) = None
   \<and> map_option Annotations (flags (fst (saveFlagGroupMetadata example_deps ''name''
        \<lparr>ID = ''main'', Title = ''Main options'', Priority = - 5\<rparr>
        (VarP ''name'' [] (StringValue ''dflt'') ''help.'' empty_state))) ''name'')
      = Some [''group-id'' \<mapsto> [''main''], ''group-title'' \<mapsto> [''Main options''],
              ''group-priority'' \<mapsto> [''-5'']]
   \<and> flags empty_state ''name'' = None
   \<and> saveFlagGroupMetadata example_deps ''name''
        \<lparr>ID = ''main'', Title = ''Main options'', Priority = - 5\<rparr> empty_state
      = (empty_state, Some (Errorf ''set group id annotation'' (External ''no such flag'')))"
proof -
  let ?grp = "\<lparr>ID = ''main'', Title = ''Main options'', Priority = - 5\<rparr>"
  let ?s = "VarP ''name'' [] (StringValue ''dflt'') ''help.'' empty_state"
  let ?flag = "\<lparr>Shorthand = [], Usage = ''help.'', Value = StringValue ''dflt'',
               Changed = False, hidden = False, deprecated = False, required = False,
               pathKind = [], Annotations = Map.empty\<rparr>"
  have h1: "flags ?s ''name'' = Some ?flag"
    by (simp add: VarP_def)
  have h2: "flags empty_state ''name'' = None"
    by (simp add: empty_state_def)
  have p: "Sprintf_d (- 5) = ''-5''"
    by (simp add: Sprintf_d_def decimal.simps)
  from group_metadata_stored_unchecked [of ?s "''name''" ?flag example_deps ?grp] h1
  have stored: "saveFlagGroupMetadata example_deps ''name'' ?grp ?s =
        (?s\<lparr>flags := (flags ?s)(''name'' \<mapsto>
            ?flag\<lparr>Annotations := [''group-id'' \<mapsto> [''main''],
               ''group-title'' \<mapsto> [''Main options''], ''group-priority'' \<mapsto> [''-5'']]\<rparr>)\<rparr>, None)"
    by (simp add: example_deps_def p)
  from group_metadata_stored_unchecked [of empty_state "''name''" ?flag example_deps ?grp] h2
  have absent: "saveFlagGroupMetadata example_deps ''name'' ?grp empty_state
      = (empty_state, Some (Errorf ''set group id annotation'' (External ''no such flag'')))"
    by simp
  show ?thesis
    using h1 h2 absent by (simp add: stored)
qed

text \<open>
  The claim as stated fails: a group with the empty id is stored, not rejected.
\<close>

theorem group_metadata_counterexample:
  "ID \<lparr>ID = [], Title = ''Main options'', Priority = 100\<rparr> = []
   \<and> snd (saveFlagGroupMetadata example_deps ''name''
        \<lparr>ID = [], Title = ''Main options'', Priority = 100\<rparr>
        (VarP ''name'' [] (StringValue ''dflt'') ''help.'' empty_state)) = None
   \<and> map_option Annotations (flags (fst (saveFlagGroupMetadata example_deps ''name''
        \<lparr>ID = [], Title = ''Main options'', Priority = 100\<rparr>
        (VarP ''name'' [] (StringValue ''dflt'') ''help.'' empty_state))) ''name'')
      = Some [''group-id'' \<mapsto> [[]], ''group-title'' \<mapsto> [''Main options''],
              ''group-priority'' \<mapsto> [''100'']]"
  by (simp add: saveFlagGroupMetadata_def SetAnnotation_def changeFlag_def VarP_def
      example_deps_def empty_state_def Sprintf_d_def decimal.simps)

subsection \<open>Registration without a candidate\<close>

text \<open>
  The scalar case without a candidate, seen from \<^verbatim>\<open>AddFlag\<close>: the registration returns
  nil and the flag it registered has the declared default as its value and the changed
  marker unset, whatever the visibility, path-kind and group options are.
\<close>

lemma saveFlagGroupMetadata_present:
  assumes "flags s name = Some f"
  shows "\<exists>s2 f2. saveFlagGroupMetadata d name grp s = (s2, None) \<and> flags s2 name = Some f2
     \<and> Value f2 = Value f \<and> Changed f2 = Changed f"
  using assms by (simp add: saveFlagGroupMetadata_def SetAnnotation_present)

lemma markTypeAndGroup_present:
  assumes "flags s name = Some f"
  shows "\<exists>s2 f2. markTypeAndGroup d opts name s = (s2, ReturnsNil) \<and> flags s2 name = Some f2
     \<and> Value f2 = Value f \<and> Changed f2 = Changed f"
proof -
  have "\<exists>s1 f1.
     (if Type opts = ''dir'' then
        (case MarkFlagDirname name s of
           (s1, Some err) \<Rightarrow> (s1, Some (Errorf ''mark flag as a directory'' err))
         | (s1, None) \<Rightarrow> (s1, None))
      else if Type opts = ''file'' then
        (case MarkFlagFilename name s of
           (s1, Some err) \<Rightarrow> (s1, Some (Errorf ''mark flag as a filename'' err))
         | (s1, None) \<Rightarrow> (s1, None))
      else (s, None)) = (s1, None)
     \<and> flags s1 name = Some f1 \<and> Value f1 = Value f \<and> Changed f1 = Changed f"
    using assms by (simp add: MarkFlagDirname_def MarkFlagFilename_def changeFlag_present)
  then obtain s1 f1 where mark:
    "(if Type opts = ''dir'' then
        (case MarkFlagDirname name s of
           (s1, Some err) \<Rightarrow> (s1, Some (Errorf ''mark flag as a directory'' err))
         | (s1, None) \<Rightarrow> (s1, None))
      else if Type opts = ''file'' then
        (case MarkFlagFilename name s of
           (s1, Some err) \<Rightarrow> (s1, Some (Errorf ''mark flag as a filename'' err))
         | (s1, None) \<Rightarrow> (s1, None))
      else (s, None)) = (s1, None)"
    and f1: "flags s1 name = Some f1" "Value f1 = Value f" "Changed f1 = Changed f"
    by blast
  show ?thesis
  proof (cases "Group opts")
    case None
    with mark f1 show ?thesis by (simp add: markTypeAndGroup_def)
  next
    case (Some grp)
    from saveFlagGroupMetadata_present [OF f1(1), of d grp] obtain s2 f2 where
      "saveFlagGroupMetadata d name grp s1 = (s2, None)" "flags s2 name = Some f2"
      "Value f2 = Value f1" "Changed f2 = Changed f1"
      by blast
    with mark f1 Some show ?thesis by (simp add: markTypeAndGroup_def)
  qed
qed

lemma AddFlag_no_candidate:
  assumes "scalarKind (kindOf defaultValue)"
    and "applyAddOptionsDefaults d opts0 (kindOf defaultValue) = Inr opts"
    and "GetEnvVarRegexesFunc opts = Some getEnvVarRegexes"
    and "getEnvVarRegexes s name = Inr exprs"
    and "compilesAll d exprs"
    and "envirLoop (sort environ) Map.empty = Some envir"
    and "\<forall>key. \<not> candidate d exprs envir key"
  shows "snd (AddFlag d environ order1 order2 name defaultValue helpText opts0 s) = ReturnsNil
     \<and> map_option Value
          (flags (fst (AddFlag d environ order1 order2 name defaultValue helpText opts0 s)) name)
          = Some defaultValue
     \<and> map_option Changed
          (flags (fst (AddFlag d environ order1 order2 name defaultValue helpText opts0 s)) name)
          = Some False"
proof -
  have kind: "kindOf defaultValue \<noteq> KOther"
    using assms(1) by (auto simp: scalarKind_def)
  obtain h where h: "buildHelp helpText exprs = Inr h"
    using buildHelp_Inr by blast
  let ?s1 = "VarP name (ShortName opts) defaultValue h s"
  have add: "addFlags name (ShortName opts) defaultValue h s = (?s1, None)"
    by (rule addFlags_supported [OF kind])
  have "\<exists>f. flags ?s1 name = Some f \<and> Value f = defaultValue \<and> Changed f = False"
    by (simp add: VarP_def)
  then obtain f where f: "flags ?s1 name = Some f" "Value f = defaultValue" "Changed f = False"
    by blast
  from markVisibility_present [OF f(1), of opts] obtain s2 f2 where
    vis: "markVisibility opts name ?s1 = (s2, None)"
    and f2: "flags s2 name = Some f2" "Value f2 = Value f" "Changed f2 = Changed f"
    by blast
  from compileLoop_ok [OF assms(5), of s2] obtain s3 where run: "compileLoop d exprs s2 = (s3, None)"
    by blast
  have none: "find (candidate d exprs envir) order2 = None"
    using assms(7) by (simp add: find_None_iff)
  have env: "processEnvVars d environ order1 order2 exprs name (kindOf defaultValue) s2
      = (s3, ReturnsNil)"
    by (simp add: processEnvVars_scalar [OF run assms(6) assms(1)] none)
  have f3: "flags s3 name = Some f2"
    using compileLoop_flags [OF run] f2(1) by simp
  from markTypeAndGroup_present [OF f3, of d opts] obtain s4 f4 where
    fin: "markTypeAndGroup d opts name s3 = (s4, ReturnsNil)"
    and f4: "flags s4 name = Some f4" "Value f4 = Value f2" "Changed f4 = Changed f2"
    by blast
  have "AddFlag d environ order1 order2 name defaultValue helpText opts0 s = (s4, ReturnsNil)"
    by (simp add: AddFlag_def assms(2) assms(3) assms(4) h add vis env fin)
  with f f2 f4 show ?thesis by simp
qed

end
